theory Spec2Isabelle
  imports Main "HOL-Library.Word"
begin

unbundle bit_operations_syntax

section \<open>Values, heap objects and the process\<close>

text \<open>
  Machine addresses (\<^verbatim>\<open>uint8*\<close>, \<^verbatim>\<open>Object**\<close>, \<^verbatim>\<open>Port*\<close>, foreign addresses) are
  integers. Stack slots are addressed by words: the slot after address \<open>a\<close> is \<open>a + 1\<close>,
  as \<^verbatim>\<open>Object**\<close> arithmetic has it. Bytecode and foreign memory are addressed by bytes.
\<close>

type_synonym addr = int
type_synonym byte = "8 word"

datatype failure = retry_after_gc | index_out_of_bounds | wrong_argument_type | illegal_state

text \<open>
  An \<^verbatim>\<open>Object*\<close> is a tagged word: a small integer, a reference to a heap object, a
  failure sentinel, or a raw C++ pointer that the engine or a native stored in an
  \<^verbatim>\<open>Object*\<close> by \<^verbatim>\<open>reinterpret_cast\<close> (a saved bytecode pointer, a \<^verbatim>\<open>Port*\<close>).
  Pointer equality of the source is equality of these values.
\<close>

datatype object = Smi int | HeapObject nat | Failure failure | Raw addr

datatype heap_object =
    Instance "object list"
  | Boxed object
  | Double "64 word"
  | LargeInteger "64 word"
  | Coroutine object object
  | Stack addr int
  | Class int int
  | Function addr

text \<open>
  \<open>Instance fields\<close>; \<open>Double\<close> holds the IEEE 754 bits of the value;
  \<open>Coroutine stack caller\<close>; \<open>Stack base top\<close> is the header of a stack whose slot \<open>i\<close>
  is at address \<open>base + i\<close> of the slot memory (\<^verbatim>\<open>stack->Pointer(i)\<close>);
  \<open>Class id number_of_instance_fields\<close>; \<open>Function a\<close> has its first bytecode at
  address \<open>a\<close> (\<^verbatim>\<open>bytecode_address_for(0)\<close>).
\<close>

datatype event = Printf string | ObjectPrint object | Session_UncaughtException

record process =
  heap :: "nat \<Rightarrow> heap_object option"
  mem :: "addr \<Rightarrow> object"
  coroutine :: object
  c_memory :: "addr \<Rightarrow> byte"
  events :: "event list"

text \<open>
  \<open>mem\<close> is the memory of the stack slots, \<open>coroutine\<close> the process's current coroutine
  (its stack is the process's stack), \<open>c_memory\<close> the memory foreign addresses point
  into, \<open>events\<close> what the process has printed or told its session, latest last.
\<close>

subsection \<open>Results\<close>

text \<open>
  What the C++ leaves undefined or aborts on is a value of the model: \<open>BadCast\<close> is a
  cast or dereference of an object of the wrong kind, \<open>OutOfBounds\<close> an array read
  past its end, \<open>AssertionFailed\<close> a failed \<^verbatim>\<open>ASSERT\<close> of a debug build, \<open>Fatal\<close> a
  \<^verbatim>\<open>FATAL\<close>, \<open>Unimplemented\<close> an \<^verbatim>\<open>UNIMPLEMENTED\<close>.
\<close>

datatype error = BadCast | OutOfBounds | AssertionFailed | Fatal | Unimplemented

type_synonym 'a result = "error + 'a"

definition and_then :: "'a result \<Rightarrow> ('a \<Rightarrow> 'b result) \<Rightarrow> 'b result" where
  "and_then m k = (case m of Inl e \<Rightarrow> Inl e | Inr x \<Rightarrow> k x)"

subsection \<open>The program, the constants of the headers, the collaborators\<close>

text \<open>
  The sources hold the interpreter and the foreign function natives. What they use of
  the rest of the virtual machine is a parameter of the model: the program's singletons
  and tables, the constants and decoders of \<^verbatim>\<open>bytecodes.h\<close> and \<^verbatim>\<open>selectors.h\<close>, and
  the functions of the process, the heap, the stack walker, the debugger and the C
  library.
\<close>

record program =
  null_object :: object
  true_object :: object
  false_object :: object
  class_at :: "int \<Rightarrow> object"
  constant_for_bytecode :: "addr \<Rightarrow> object"
  dispatch_table :: "object list"
  vtable :: "object list list"
  smi_class :: object
  ObjectFromFailure :: "failure \<Rightarrow> object"
  bytecodes :: "addr \<Rightarrow> byte"
  session :: "bool option"

text \<open>
  \<open>bytecodes\<close> is the memory the bytecode pointer points into; \<open>session\<close> is \<open>None\<close>
  when the program has no session and otherwise holds \<^verbatim>\<open>session->is_debugging()\<close>;
  \<open>vtable\<close> is the array of the entry arrays.
\<close>

record constants = program +
  DEBUG :: bool
  Flags_validate_stack :: bool
  kNumBytecodes :: int
  ArityField_decode :: "int \<Rightarrow> int"
  IdField_decode :: "int \<Rightarrow> int"
  KindField_decode :: "int \<Rightarrow> int"
  SETTER :: int
  IsInvokeFast :: "int \<Rightarrow> bool"
  IsInvokeVtable :: "int \<Rightarrow> bool"
  IsInvokeNormal :: "int \<Rightarrow> bool"

record lengths = constants +
  kAllocateLength :: int
  kAllocateImmutableLength :: int
  kAllocateImmutableUnfoldLength :: int
  kAllocateBoxedLength :: int
  kInvokeNativeLength :: int
  kInvokeNativeYieldLength :: int
  kInvokeMethodLength :: int
  kInvokeMethodFastLength :: int
  kInvokeMethodVtableLength :: int
  kIdenticalLength :: int
  kIdenticalNonNumericLength :: int
  kEnterNoSuchMethodLength :: int

record env = lengths +
  NewInstance :: "process \<Rightarrow> object \<Rightarrow> bool \<Rightarrow> object \<times> process"
  NewBoxed :: "process \<Rightarrow> object \<Rightarrow> object \<times> process"
  ToInteger :: "process \<Rightarrow> int \<Rightarrow> object \<times> process"
  Process_CollectGarbage :: "process \<Rightarrow> process"
  IsImmutable :: "process \<Rightarrow> object \<Rightarrow> bool"
  get_class :: "process \<Rightarrow> object \<Rightarrow> object"
  kNativeTable :: "int \<Rightarrow> process \<Rightarrow> addr \<Rightarrow> object \<times> process"
  debug_info :: "process \<Rightarrow> (addr \<Rightarrow> addr \<Rightarrow> bool) option"
  ComputeCatchBlock :: "process \<Rightarrow> addr \<times> int"
  has_caller :: "process \<Rightarrow> object \<Rightarrow> bool"
  stack_limit :: "process \<Rightarrow> addr"
  Process_HandleStackOverflow :: "process \<Rightarrow> int \<Rightarrow> bool \<times> process"
  LookupEntry_target :: "process \<Rightarrow> object \<Rightarrow> int \<Rightarrow> object"
  computed_stack_height :: "process \<Rightarrow> int"
  IsLocked :: "process \<Rightarrow> addr \<Rightarrow> bool"
  calloc :: "process \<Rightarrow> int \<Rightarrow> addr"
  foreign_function :: "addr \<Rightarrow> int list \<Rightarrow> process \<Rightarrow> int \<times> process"

text \<open>
  An allocator or a native returns its \<^verbatim>\<open>Object*\<close> and the process as it left it.
  \<open>ToInteger p v\<close> is what \<^verbatim>\<open>process->ToInteger\<close> returns for an argument of the C value
  \<open>v\<close>: a small integer, a boxed integer the heap allocates, or a failure.
  \<open>get_class p obj\<close> is the class in the header of the heap object \<open>obj\<close>.
  \<open>debug_info p\<close> is \<open>None\<close> for a null \<^verbatim>\<open>debug_info()\<close> and otherwise its
  \<^verbatim>\<open>ShouldBreak(bcp, sp)\<close>. \<open>ComputeCatchBlock p\<close> is the catch bytecode pointer the
  stack walker returns (0 for \<^verbatim>\<open>NULL\<close>) and the stack delta it stores.
  \<open>computed_stack_height p\<close> is the height \<^verbatim>\<open>ValidateStack\<close> computes with the stack
  walker. \<open>calloc p size\<close> is the pointer the C library returns (0 for \<^verbatim>\<open>NULL\<close>).
  \<open>foreign_function a\<close> is the foreign code at address \<open>a\<close>: from its argument words
  to the machine word it leaves as its result.
\<close>

section \<open>The foreign function natives (\<^verbatim>\<open>ffi.cc\<close>)\<close>

text \<open>
  A native is \<^verbatim>\<open>Object* Native_X(Process* process, Object** arguments)\<close>: it reads
  its arguments from the stack slots \<open>arguments\<close>, \<open>arguments + 1\<close>, ... and returns an
  object (or a failure) and the process as it leaves it.
\<close>

text \<open>
  Modelled from the spec: \<^verbatim>\<open>AsForeignWord\<close> is declared outside the sources; the
  spec has the operand interpreted as a machine word. A small integer gives its value,
  a \<open>LargeInteger\<close> its 64-bit value; the machine word is taken to have 64 bits.
\<close>

definition AsForeignWord :: "process \<Rightarrow> object \<Rightarrow> int result" where
  "AsForeignWord p obj =
     (case obj of
        Smi v \<Rightarrow> Inr v
      | HeapObject n \<Rightarrow>
          (case heap p n of Some (LargeInteger w) \<Rightarrow> Inr (sint w) | _ \<Rightarrow> Inl BadCast)
      | _ \<Rightarrow> Inl BadCast)"

subsection \<open>Typed reads and writes of foreign memory\<close>

datatype ctype = int8 | int16 | int32 | int64 | uint8 | uint16 | uint32 | uint64

fun sizeof :: "ctype \<Rightarrow> nat" where
  "sizeof int8 = 1"
| "sizeof int16 = 2"
| "sizeof int32 = 4"
| "sizeof int64 = 8"
| "sizeof uint8 = 1"
| "sizeof uint16 = 2"
| "sizeof uint32 = 4"
| "sizeof uint64 = 8"

fun is_signed :: "ctype \<Rightarrow> bool" where
  "is_signed int8 = True"
| "is_signed int16 = True"
| "is_signed int32 = True"
| "is_signed int64 = True"
| "is_signed uint8 = False"
| "is_signed uint16 = False"
| "is_signed uint32 = False"
| "is_signed uint64 = False"

text \<open>
  \<open>reinterpret T u\<close> reads the unsigned value \<open>u\<close> of the bits of a \<open>T\<close> as a \<open>T\<close>;
  \<open>c_convert T v\<close> is the conversion of an integer to \<open>T\<close>: \<open>v\<close> modulo \<open>2 ^ N\<close> for
  the \<open>N\<close> bits of \<open>T\<close>, read as a \<open>T\<close>.
\<close>

definition reinterpret :: "ctype \<Rightarrow> int \<Rightarrow> int" where
  "reinterpret T u =
     (if is_signed T \<and> 2 ^ (8 * sizeof T - 1) \<le> u then u - 2 ^ (8 * sizeof T) else u)"

definition c_convert :: "ctype \<Rightarrow> int \<Rightarrow> int" where
  "c_convert T v = reinterpret T (v mod 2 ^ (8 * sizeof T))"

text \<open>The bytes of a value in memory, least significant first.\<close>

fun bytes_of :: "nat \<Rightarrow> int \<Rightarrow> byte list" where
  "bytes_of 0 v = []"
| "bytes_of (Suc k) v = word_of_int (v mod 256) # bytes_of k (v div 256)"

fun int_of_bytes :: "byte list \<Rightarrow> int" where
  "int_of_bytes [] = 0"
| "int_of_bytes (b # bs) = uint b + 256 * int_of_bytes bs"


fun read_bytes :: "(addr \<Rightarrow> byte) \<Rightarrow> addr \<Rightarrow> nat \<Rightarrow> byte list" where
  "read_bytes m a 0 = []"
| "read_bytes m a (Suc k) = m a # read_bytes m (a + 1) k"


definition load :: "ctype \<Rightarrow> addr \<Rightarrow> (addr \<Rightarrow> byte) \<Rightarrow> int" where
  "load T address m = reinterpret T (int_of_bytes (read_bytes m address (sizeof T)))"

subsection \<open>The natives\<close>





text \<open>
  \<^verbatim>\<open>ForeignCall0\<close> to \<^verbatim>\<open>ForeignCall6\<close> differ in the number of argument words only.
  \<open>foreign_words p arguments n\<close> are \<^verbatim>\<open>AsForeignWord(arguments[1])\<close> to
  \<^verbatim>\<open>AsForeignWord(arguments[n])\<close>. The address is cast to a pointer to a function
  that returns a C \<^verbatim>\<open>int\<close>, so of the machine word the callee leaves the caller reads
  an \<^verbatim>\<open>int\<close>: \<^verbatim>\<open>int result = function(a0, ...)\<close>.
\<close>

fun foreign_words :: "process \<Rightarrow> addr \<Rightarrow> nat \<Rightarrow> int list result" where
  "foreign_words p arguments 0 = Inr []"
| "foreign_words p arguments (Suc n) =
     and_then (foreign_words p arguments n) (\<lambda>ws.
     and_then (AsForeignWord p (mem p (arguments + 1 + int n))) (\<lambda>w. Inr (ws @ [w])))"

definition ForeignCall :: "env \<Rightarrow> nat \<Rightarrow> process \<Rightarrow> addr \<Rightarrow> (object \<times> process) result" where
  "ForeignCall env n p arguments =
     and_then (AsForeignWord p (mem p arguments)) (\<lambda>address.
     and_then (foreign_words p arguments n) (\<lambda>ws.
       let (r, p') = foreign_function env address ws p;
           result = c_convert int32 r
       in Inr (ToInteger env p' result)))"

definition Native_ForeignCall0 :: "env \<Rightarrow> process \<Rightarrow> addr \<Rightarrow> (object \<times> process) result" where
  "Native_ForeignCall0 env = ForeignCall env 0"

definition Native_ForeignCall1 :: "env \<Rightarrow> process \<Rightarrow> addr \<Rightarrow> (object \<times> process) result" where
  "Native_ForeignCall1 env = ForeignCall env 1"

definition Native_ForeignCall2 :: "env \<Rightarrow> process \<Rightarrow> addr \<Rightarrow> (object \<times> process) result" where
  "Native_ForeignCall2 env = ForeignCall env 2"

definition Native_ForeignCall3 :: "env \<Rightarrow> process \<Rightarrow> addr \<Rightarrow> (object \<times> process) result" where
  "Native_ForeignCall3 env = ForeignCall env 3"

definition Native_ForeignCall4 :: "env \<Rightarrow> process \<Rightarrow> addr \<Rightarrow> (object \<times> process) result" where
  "Native_ForeignCall4 env = ForeignCall env 4"

definition Native_ForeignCall5 :: "env \<Rightarrow> process \<Rightarrow> addr \<Rightarrow> (object \<times> process) result" where
  "Native_ForeignCall5 env = ForeignCall env 5"

definition Native_ForeignCall6 :: "env \<Rightarrow> process \<Rightarrow> addr \<Rightarrow> (object \<times> process) result" where
  "Native_ForeignCall6 env = ForeignCall env 6"

text \<open>The seven natives, by the number of argument words.\<close>

definition ForeignCall_natives :: "(env \<Rightarrow> process \<Rightarrow> addr \<Rightarrow> (object \<times> process) result) list" where
  "ForeignCall_natives =
     [Native_ForeignCall0, Native_ForeignCall1, Native_ForeignCall2, Native_ForeignCall3,
      Native_ForeignCall4, Native_ForeignCall5, Native_ForeignCall6]"

section \<open>The interpreter (\<^verbatim>\<open>interpreter.cc\<close>)\<close>

subsection \<open>\<^verbatim>\<open>class State\<close>\<close>

text \<open>
  The engine's working state: the process, the stack pointer (the address of the top
  slot), the bytecode pointer, and what \<^verbatim>\<open>Interpret\<close> has written to its out-parameter
  \<^verbatim>\<open>Port** yield_target\<close>.
\<close>

record state =
  process :: process
  sp :: addr
  bcp :: addr
  yield_target :: "addr option"

datatype interrupt_kind =
  kReady | kTerminate | kInterrupt | kYield | kTargetYield | kUncaughtException | kBreakPoint

text \<open>
  How the code of an opcode ends: it reaches \<^verbatim>\<open>DISPATCH()\<close>, it returns an interrupt
  kind from \<^verbatim>\<open>Interpret\<close>, or the process exits.
\<close>

datatype outcome = Dispatch state | Surrender interrupt_kind state | Exit int process

definition ASSERT :: "env \<Rightarrow> bool \<Rightarrow> unit result" where
  "ASSERT env c = (if DEBUG env \<and> \<not> c then Inl AssertionFailed else Inr ())"

text \<open>\<^verbatim>\<open>reinterpret_cast\<close> of an \<^verbatim>\<open>Object*\<close> to a C++ pointer.\<close>

definition as_pointer :: "object \<Rightarrow> addr result" where
  "as_pointer obj = (case obj of Raw a \<Rightarrow> Inr a | _ \<Rightarrow> Inl BadCast)"

text \<open>
  \<^verbatim>\<open>process->stack()\<close>, the stack of the current coroutine: its reference, the address of
  its slot 0 and its top.
\<close>

definition Process_stack :: "process \<Rightarrow> (nat \<times> addr \<times> int) result" where
  "Process_stack p =
     (case coroutine p of
        HeapObject c \<Rightarrow>
          (case heap p c of
             Some (Coroutine (HeapObject r) caller) \<Rightarrow>
               (case heap p r of
                  Some (Stack base tp) \<Rightarrow> Inr (r, base, tp)
                | _ \<Rightarrow> Inl BadCast)
           | _ \<Rightarrow> Inl BadCast)
      | _ \<Rightarrow> Inl BadCast)"

definition Top :: "state \<Rightarrow> object" where
  "Top s = mem (process s) (sp s)"

definition SetTop :: "state \<Rightarrow> object \<Rightarrow> state" where
  "SetTop s v = s\<lparr>process := (process s)\<lparr>mem := (mem (process s))(sp s := v)\<rparr>\<rparr>"

definition Local :: "state \<Rightarrow> int \<Rightarrow> object" where
  "Local s n = mem (process s) (sp s - n)"

definition SetLocal :: "state \<Rightarrow> int \<Rightarrow> object \<Rightarrow> state" where
  "SetLocal s n v = s\<lparr>process := (process s)\<lparr>mem := (mem (process s))(sp s - n := v)\<rparr>\<rparr>"

definition LocalPointer :: "state \<Rightarrow> int \<Rightarrow> addr" where
  "LocalPointer s n = sp s - n"

definition Pop :: "state \<Rightarrow> object \<times> state" where
  "Pop s = (mem (process s) (sp s), s\<lparr>sp := sp s - 1\<rparr>)"

definition Push :: "state \<Rightarrow> object \<Rightarrow> state" where
  "Push s v =
     s\<lparr>sp := sp s + 1, process := (process s)\<lparr>mem := (mem (process s))(sp s + 1 := v)\<rparr>\<rparr>"

definition Drop :: "state \<Rightarrow> int \<Rightarrow> state" where
  "Drop s n = s\<lparr>sp := sp s - n\<rparr>"

definition Goto :: "env \<Rightarrow> state \<Rightarrow> addr \<Rightarrow> state result" where
  "Goto env s b = and_then (ASSERT env (b \<noteq> 0)) (\<lambda>_. Inr (s\<lparr>bcp := b\<rparr>))"

definition Advance :: "state \<Rightarrow> int \<Rightarrow> state" where
  "Advance s delta = s\<lparr>bcp := bcp s + delta\<rparr>"

definition ComputeReturnAddress :: "state \<Rightarrow> int \<Rightarrow> addr" where
  "ComputeReturnAddress s offset = bcp s + offset"

definition ReadByte :: "env \<Rightarrow> state \<Rightarrow> int \<Rightarrow> int" where
  "ReadByte env s offset = uint (bytecodes env (bcp s + offset))"

text \<open>
  Modelled from the spec: \<^verbatim>\<open>Utils::ReadInt32\<close> is not in the sources; 32-bit operands
  are read in host byte order, taken to be least significant byte first.
\<close>

definition Utils_ReadInt32 :: "env \<Rightarrow> addr \<Rightarrow> int" where
  "Utils_ReadInt32 env a = load int32 a (bytecodes env)"

definition ReadInt32 :: "env \<Rightarrow> state \<Rightarrow> int \<Rightarrow> int" where
  "ReadInt32 env s offset = Utils_ReadInt32 env (bcp s + offset)"

definition ReadOpcode :: "env \<Rightarrow> state \<Rightarrow> int result" where
  "ReadOpcode env s =
     (let opcode = uint (bytecodes env (bcp s)) in
      if DEBUG env \<and> kNumBytecodes env \<le> opcode then Inl Fatal else Inr opcode)"

definition ReadConstant :: "env \<Rightarrow> state \<Rightarrow> object" where
  "ReadConstant env s = constant_for_bytecode env (bcp s)"

definition HasStackSpaceFor :: "env \<Rightarrow> state \<Rightarrow> int \<Rightarrow> bool" where
  "HasStackSpaceFor env s sz \<longleftrightarrow> sp s + sz < stack_limit env (process s)"

definition SetTopFromPointer :: "process \<Rightarrow> nat \<Rightarrow> addr \<Rightarrow> addr \<Rightarrow> process" where
  "SetTopFromPointer p r base a = p\<lparr>heap := (heap p)(r \<mapsto> Stack base (a - base))\<rparr>"

definition SaveState :: "state \<Rightarrow> state result" where
  "SaveState s =
     (let s1 = Push s (Raw (bcp s)) in
      and_then (Process_stack (process s1)) (\<lambda>(r, base, tp).
        Inr (s1\<lparr>process := SetTopFromPointer (process s1) r base (sp s1)\<rparr>)))"

definition RestoreState :: "env \<Rightarrow> state \<Rightarrow> state result" where
  "RestoreState env s =
     and_then (Process_stack (process s)) (\<lambda>(r, base, tp).
       let (v, s1) = Pop (s\<lparr>sp := base + tp\<rparr>) in
       and_then (as_pointer v) (\<lambda>b.
       and_then (ASSERT env (b \<noteq> 0)) (\<lambda>_. Inr (s1\<lparr>bcp := b\<rparr>))))"

subsection \<open>\<^verbatim>\<open>class Engine\<close> and the dispatch macros\<close>

definition ToBool :: "env \<Rightarrow> bool \<Rightarrow> object" where
  "ToBool env b = (if b then true_object env else false_object env)"

definition PushReturnAddress :: "state \<Rightarrow> int \<Rightarrow> state" where
  "PushReturnAddress s offset = Push s (Raw (ComputeReturnAddress s offset))"

definition PopReturnAddress :: "env \<Rightarrow> state \<Rightarrow> state result" where
  "PopReturnAddress env s =
     (let (v, s1) = Pop s in and_then (as_pointer v) (\<lambda>b. Goto env s1 b))"

definition Engine_CollectGarbage :: "env \<Rightarrow> state \<Rightarrow> state result" where
  "Engine_CollectGarbage env s =
     and_then (SaveState s) (\<lambda>s1.
       RestoreState env (s1\<lparr>process := Process_CollectGarbage env (process s1)\<rparr>))"

definition StackOverflowCheck :: "env \<Rightarrow> state \<Rightarrow> int \<Rightarrow> (bool \<times> state) result" where
  "StackOverflowCheck env s sz =
     (if HasStackSpaceFor env s sz then Inr (True, s)
      else and_then (SaveState s) (\<lambda>s1.
        let (grown, p) = Process_HandleStackOverflow env (process s1) sz;
            s2 = s1\<lparr>process := p\<rparr>
        in if \<not> grown then Inr (False, s2)
           else and_then (RestoreState env s2) (\<lambda>s3. Inr (True, s3))))"

definition ValidateStack :: "env \<Rightarrow> state \<Rightarrow> state result" where
  "ValidateStack env s =
     and_then (SaveState s) (\<lambda>s1.
     and_then (Process_stack (process s1)) (\<lambda>(r, base, tp).
       if tp \<noteq> computed_stack_height env (process s1) then Inl Fatal
       else RestoreState env s1))"

definition ShouldBreak :: "env \<Rightarrow> state \<Rightarrow> (bool \<times> state) result" where
  "ShouldBreak env s =
     (case debug_info env (process s) of
        Some should_break \<Rightarrow>
          if should_break (bcp s) (sp s)
          then and_then (SaveState s) (\<lambda>s1. Inr (True, s1))
          else Inr (False, s)
      | None \<Rightarrow> Inr (False, s))"

text \<open>
  \<^verbatim>\<open>DISPATCH()\<close> returns \<^verbatim>\<open>kBreakPoint\<close> or jumps to the label of the opcode at the
  bytecode pointer.
\<close>

datatype dispatched = Break state | Label int state

definition DISPATCH :: "env \<Rightarrow> state \<Rightarrow> dispatched result" where
  "DISPATCH env s =
     and_then (ShouldBreak env s) (\<lambda>(should_break, s1).
       if should_break then Inr (Break s1)
       else and_then (ReadOpcode env s1) (\<lambda>opcode. Inr (Label opcode s1)))"

definition OPCODE_BEGIN :: "env \<Rightarrow> state \<Rightarrow> state result" where
  "OPCODE_BEGIN env s = (if Flags_validate_stack env then ValidateStack env s else Inr s)"

text \<open>
  \<^verbatim>\<open>GC_AND_RETRY_ON_ALLOCATION_FAILURE(var, exp)\<close>: \<open>exp\<close> is the value of the allocation
  and the process after it, \<open>k\<close> the code after the macro.
\<close>

definition GC_AND_RETRY_ON_ALLOCATION_FAILURE ::
  "env \<Rightarrow> state \<Rightarrow> object \<times> process \<Rightarrow> (object \<Rightarrow> state \<Rightarrow> outcome result) \<Rightarrow> outcome result" where
  "GC_AND_RETRY_ON_ALLOCATION_FAILURE env s exp k =
     (let (var, p) = exp; s1 = s\<lparr>process := p\<rparr> in
      if var = Failure retry_after_gc
      then and_then (Engine_CollectGarbage env s1) (\<lambda>s2. Inr (Dispatch s2))
      else k var s1)"

subsection \<open>Reads and writes of heap objects\<close>

text \<open>
  The accessors of \<^verbatim>\<open>object.h\<close> the opcodes use. A cast to the wrong kind and a read
  or write past the end of an array are results of the model.
\<close>

definition Smi_value :: "object \<Rightarrow> int result" where
  "Smi_value obj = (case obj of Smi v \<Rightarrow> Inr v | _ \<Rightarrow> Inl BadCast)"

definition Array_get :: "'a list \<Rightarrow> int \<Rightarrow> 'a result" where
  "Array_get xs i = (if 0 \<le> i \<and> i < int (length xs) then Inr (xs ! nat i) else Inl OutOfBounds)"

definition Class_id :: "process \<Rightarrow> object \<Rightarrow> int result" where
  "Class_id p klass =
     (case klass of
        HeapObject n \<Rightarrow> (case heap p n of Some (Class i n_fields) \<Rightarrow> Inr i | _ \<Rightarrow> Inl BadCast)
      | _ \<Rightarrow> Inl BadCast)"

definition NumberOfInstanceFields :: "process \<Rightarrow> object \<Rightarrow> int result" where
  "NumberOfInstanceFields p klass =
     (case klass of
        HeapObject n \<Rightarrow> (case heap p n of Some (Class i n_fields) \<Rightarrow> Inr n_fields | _ \<Rightarrow> Inl BadCast)
      | _ \<Rightarrow> Inl BadCast)"

definition SetInstanceField :: "process \<Rightarrow> object \<Rightarrow> int \<Rightarrow> object \<Rightarrow> process result" where
  "SetInstanceField p instance i v =
     (case instance of
        HeapObject n \<Rightarrow>
          (case heap p n of
             Some (Instance fs) \<Rightarrow>
               if 0 \<le> i \<and> i < int (length fs)
               then Inr (p\<lparr>heap := (heap p)(n \<mapsto> Instance (fs[nat i := v]))\<rparr>)
               else Inl OutOfBounds
           | _ \<Rightarrow> Inl BadCast)
      | _ \<Rightarrow> Inl BadCast)"

definition bytecode_address_for_0 :: "process \<Rightarrow> object \<Rightarrow> addr result" where
  "bytecode_address_for_0 p target =
     (case target of
        HeapObject n \<Rightarrow> (case heap p n of Some (Function a) \<Rightarrow> Inr a | _ \<Rightarrow> Inl BadCast)
      | _ \<Rightarrow> Inl BadCast)"

definition as_Double :: "process \<Rightarrow> object \<Rightarrow> 64 word option" where
  "as_Double p obj =
     (case obj of
        HeapObject n \<Rightarrow> (case heap p n of Some (Double d) \<Rightarrow> Some d | _ \<Rightarrow> None)
      | _ \<Rightarrow> None)"

definition as_LargeInteger :: "process \<Rightarrow> object \<Rightarrow> 64 word option" where
  "as_LargeInteger p obj =
     (case obj of
        HeapObject n \<Rightarrow> (case heap p n of Some (LargeInteger v) \<Rightarrow> Some v | _ \<Rightarrow> None)
      | _ \<Rightarrow> None)"

text \<open>
  \<open>as_Double p obj\<close> is \<open>Some\<close> of the value when \<^verbatim>\<open>obj->IsDouble()\<close>, and
  \<open>as_LargeInteger\<close> likewise for \<^verbatim>\<open>IsLargeInteger()\<close>.
\<close>

definition Coroutine_caller :: "process \<Rightarrow> object \<Rightarrow> object result" where
  "Coroutine_caller p c =
     (case c of
        HeapObject n \<Rightarrow> (case heap p n of Some (Coroutine stk caller) \<Rightarrow> Inr caller | _ \<Rightarrow> Inl BadCast)
      | _ \<Rightarrow> Inl BadCast)"

definition set_stack :: "process \<Rightarrow> object \<Rightarrow> object \<Rightarrow> process result" where
  "set_stack p c v =
     (case c of
        HeapObject n \<Rightarrow>
          (case heap p n of
             Some (Coroutine stk caller) \<Rightarrow> Inr (p\<lparr>heap := (heap p)(n \<mapsto> Coroutine v caller)\<rparr>)
           | _ \<Rightarrow> Inl BadCast)
      | _ \<Rightarrow> Inl BadCast)"

definition set_caller :: "process \<Rightarrow> object \<Rightarrow> object \<Rightarrow> process result" where
  "set_caller p c v =
     (case c of
        HeapObject n \<Rightarrow>
          (case heap p n of
             Some (Coroutine stk caller) \<Rightarrow> Inr (p\<lparr>heap := (heap p)(n \<mapsto> Coroutine stk v)\<rparr>)
           | _ \<Rightarrow> Inl BadCast)
      | _ \<Rightarrow> Inl BadCast)"

text \<open>
  Modelled from the spec: \<^verbatim>\<open>Process::UpdateCoroutine\<close> is not in the sources; it
  switches the process's current stack to the target coroutine's.
\<close>

definition UpdateCoroutine :: "process \<Rightarrow> object \<Rightarrow> process" where
  "UpdateCoroutine p c = p\<lparr>coroutine := c\<rparr>"

subsection \<open>Identity of objects\<close>

text \<open>
  \<^verbatim>\<open>isnan\<close> and \<^verbatim>\<open>==\<close> of C on the bits of two doubles (IEEE 754 binary64): a NaN
  has all exponent bits set and a fraction that is not zero; a NaN equals nothing,
  the two zeros are equal, and any other two values are equal when their bits are.
\<close>

definition isnan :: "64 word \<Rightarrow> bool" where
  "isnan d \<longleftrightarrow> 0x7FF0000000000000 < (d AND 0x7FFFFFFFFFFFFFFF)"

definition double_equal :: "64 word \<Rightarrow> 64 word \<Rightarrow> bool" where
  "double_equal l r \<longleftrightarrow>
     \<not> isnan l \<and> \<not> isnan r \<and>
     (l = r \<or> (l AND 0x7FFFFFFFFFFFFFFF = 0 \<and> r AND 0x7FFFFFFFFFFFFFFF = 0))"

definition HandleIdentical :: "env \<Rightarrow> process \<Rightarrow> object \<Rightarrow> object \<Rightarrow> object" where
  "HandleIdentical env p left right =
     (let identical =
        (case (as_Double p left, as_Double p right) of
           (Some left_value, Some right_value) \<Rightarrow>
             if isnan left_value \<and> isnan right_value then True
             else double_equal left_value right_value
         | _ \<Rightarrow>
            (case (as_LargeInteger p left, as_LargeInteger p right) of
               (Some left_value, Some right_value) \<Rightarrow> left_value = right_value
             | _ \<Rightarrow> left = right))
      in if identical then true_object env else false_object env)"

definition Identical :: "env \<Rightarrow> state \<Rightarrow> outcome result" where
  "Identical env s0 =
     and_then (OPCODE_BEGIN env s0) (\<lambda>s.
       let result = HandleIdentical env (process s) (Local s 1) (Local s 0);
           s1 = Drop s 1;
           s2 = SetTop s1 result
       in Inr (Dispatch (Advance s2 (kIdenticalLength env))))"

definition IdenticalNonNumeric :: "env \<Rightarrow> state \<Rightarrow> outcome result" where
  "IdenticalNonNumeric env s0 =
     and_then (OPCODE_BEGIN env s0) (\<lambda>s.
       let identical = (Local s 0 = Local s 1);
           s1 = Drop s 1;
           s2 = SetTop s1 (ToBool env identical)
       in Inr (Dispatch (Advance s2 (kIdenticalNonNumericLength env))))"

subsection \<open>Return\<close>

definition Return :: "env \<Rightarrow> state \<Rightarrow> outcome result" where
  "Return env s0 =
     and_then (OPCODE_BEGIN env s0) (\<lambda>s.
       let locals = ReadByte env s 1;
           arguments = ReadByte env s 2;
           result = Local s 0;
           s1 = Drop s locals
       in and_then (PopReturnAddress env s1) (\<lambda>s2.
            let s3 = Drop s2 arguments in Inr (Dispatch (Push s3 result))))"

subsection \<open>The no-such-method trampoline\<close>

text \<open>
  In \<^verbatim>\<open>EnterNoSuchMethod\<close> the selector is an \<^verbatim>\<open>int\<close>: the value of the Smi in the
  dispatch table, a \<^verbatim>\<open>word\<close>, is converted to it. In \<^verbatim>\<open>ExitNoSuchMethod\<close> it is a
  \<^verbatim>\<open>word\<close>.
\<close>

definition EnterNoSuchMethod :: "env \<Rightarrow> state \<Rightarrow> outcome result" where
  "EnterNoSuchMethod env s0 =
     and_then (OPCODE_BEGIN env s0) (\<lambda>s.
     and_then (as_pointer (Local s 0)) (\<lambda>return_address.
       let opcode = uint (bytecodes env (return_address - 5)) in
       and_then
         (if IsInvokeFast env opcode then
            (let index = Utils_ReadInt32 env (return_address - 4) in
             and_then (and_then (Array_get (dispatch_table env) (index + 1)) Smi_value) (\<lambda>v.
               Inr (c_convert int32 v)))
          else if IsInvokeVtable env opcode then
            Inr (Utils_ReadInt32 env (return_address - 4))
          else
            and_then (ASSERT env (IsInvokeNormal env opcode)) (\<lambda>_.
              Inr (Utils_ReadInt32 env (return_address - 4))))
         (\<lambda>selector.
            let arity = ArityField_decode env selector;
                selector_smi = Smi selector;
                receiver = Local s (arity + 1);
                s1 = Push s selector_smi;
                s2 = Push s1 receiver;
                s3 = Push s2 selector_smi
            in Inr (Dispatch (Advance s3 (kEnterNoSuchMethodLength env))))))"

definition ExitNoSuchMethod :: "env \<Rightarrow> state \<Rightarrow> outcome result" where
  "ExitNoSuchMethod env s0 =
     and_then (OPCODE_BEGIN env s0) (\<lambda>s.
       let (result, s1) = Pop s;
           (selector_obj, s2) = Pop s1
       in and_then (Smi_value selector_obj) (\<lambda>selector.
          and_then (PopReturnAddress env s2) (\<lambda>s3.
            let result = (if KindField_decode env selector = SETTER env then Local s3 0 else result);
                arity = ArityField_decode env selector;
                s4 = Drop s3 (arity + 1)
            in Inr (Dispatch (Push s4 result)))))"

subsection \<open>Natives\<close>

definition InvokeNative :: "env \<Rightarrow> state \<Rightarrow> outcome result" where
  "InvokeNative env s0 =
     and_then (OPCODE_BEGIN env s0) (\<lambda>s.
       let arity = ReadByte env s 1;
           native = ReadByte env s 2;
           arguments = LocalPointer s arity
       in GC_AND_RETRY_ON_ALLOCATION_FAILURE env s
            (kNativeTable env native (process s) arguments)
            (\<lambda>result s1.
               case result of
                 Failure f \<Rightarrow>
                   Inr (Dispatch (Advance (Push s1 (ObjectFromFailure env f))
                                    (kInvokeNativeLength env)))
               | _ \<Rightarrow>
                   and_then (PopReturnAddress env s1) (\<lambda>s2.
                     Inr (Dispatch (Push (Drop s2 arity) result)))))"

definition InvokeNativeYield :: "env \<Rightarrow> state \<Rightarrow> outcome result" where
  "InvokeNativeYield env s0 =
     and_then (OPCODE_BEGIN env s0) (\<lambda>s.
       let arity = ReadByte env s 1;
           native = ReadByte env s 2;
           arguments = LocalPointer s arity
       in GC_AND_RETRY_ON_ALLOCATION_FAILURE env s
            (kNativeTable env native (process s) arguments)
            (\<lambda>result s1.
               case result of
                 Failure f \<Rightarrow>
                   Inr (Dispatch (Advance (Push s1 (ObjectFromFailure env f))
                                    (kInvokeNativeYieldLength env)))
               | _ \<Rightarrow>
                   and_then (PopReturnAddress env s1) (\<lambda>s2.
                     let s3 = Drop s2 arity;
                         null = null_object env;
                         s4 = Push s3 null
                     in if result \<noteq> null then
                          and_then (SaveState s4) (\<lambda>s5.
                          and_then (as_pointer result) (\<lambda>port.
                            let s6 = s5\<lparr>yield_target := Some port\<rparr> in
                            and_then (ASSERT env (IsLocked env (process s6) port)) (\<lambda>_.
                              Inr (Surrender kTargetYield s6))))
                        else Inr (Dispatch s4))))"

subsection \<open>Method dispatch\<close>

text \<open>
  \<^verbatim>\<open>receiver->IsSmi() ? program()->smi_class() : HeapObject::cast(receiver)->get_class()\<close>
\<close>

definition receiver_class :: "env \<Rightarrow> process \<Rightarrow> object \<Rightarrow> object" where
  "receiver_class env p receiver =
     (case receiver of Smi v \<Rightarrow> smi_class env | _ \<Rightarrow> get_class env p receiver)"

text \<open>
  The end of the three invokes: \<^verbatim>\<open>Goto(target->bytecode_address_for(0))\<close> and the stack
  overflow check.
\<close>

definition enter_function :: "env \<Rightarrow> state \<Rightarrow> object \<Rightarrow> outcome result" where
  "enter_function env s target =
     and_then (bytecode_address_for_0 (process s) target) (\<lambda>a.
     and_then (Goto env s a) (\<lambda>s1.
     and_then (StackOverflowCheck env s1 0) (\<lambda>(ok, s2).
       if \<not> ok then Inr (Surrender kInterrupt s2) else Inr (Dispatch s2))))"

definition InvokeMethod :: "env \<Rightarrow> state \<Rightarrow> outcome result" where
  "InvokeMethod env s0 =
     and_then (OPCODE_BEGIN env s0) (\<lambda>s.
       let selector = ReadInt32 env s 1;
           arity = ArityField_decode env selector;
           receiver = Local s arity;
           s1 = PushReturnAddress s (kInvokeMethodLength env);
           target = LookupEntry_target env (process s1) receiver selector
       in enter_function env s1 target)"

text \<open>
  The loop of \<^verbatim>\<open>InvokeMethodFast\<close> over the rows of the dispatch table, from the row at
  \<open>offset\<close>. It ends at a row that holds the class id or at a read past the end of the
  table.
\<close>

function dispatch_scan :: "object list \<Rightarrow> int \<Rightarrow> int \<Rightarrow> int \<Rightarrow> object result" where
  "dispatch_scan table index class_id offset =
     (case Array_get table (index + offset) of
        Inl e \<Rightarrow> Inl e
      | Inr lower_obj \<Rightarrow>
          (case Smi_value lower_obj of
             Inl e \<Rightarrow> Inl e
           | Inr lower \<Rightarrow>
               if class_id < lower then dispatch_scan table index class_id (offset + 4)
               else
                 (case and_then (Array_get table (index + offset + 1)) Smi_value of
                    Inl e \<Rightarrow> Inl e
                  | Inr upper \<Rightarrow>
                      if upper \<le> class_id then dispatch_scan table index class_id (offset + 4)
                      else Array_get table (index + offset + 3))))"
  by pat_completeness auto
termination
  by (relation "measure (\<lambda>(table, index, class_id, offset). nat (int (length table) - (index + offset)))")
     (auto simp: Array_get_def split: if_splits)

definition InvokeMethodFast :: "env \<Rightarrow> state \<Rightarrow> outcome result" where
  "InvokeMethodFast env s0 =
     and_then (OPCODE_BEGIN env s0) (\<lambda>s.
       let index = ReadInt32 env s 1;
           table = dispatch_table env
       in and_then (and_then (Array_get table (index + 1)) Smi_value) (\<lambda>v.
            let selector = c_convert int32 v;
                arity = ArityField_decode env selector;
                receiver = Local s arity;
                s1 = PushReturnAddress s (kInvokeMethodFastLength env);
                clazz = receiver_class env (process s1) receiver
            in and_then (Class_id (process s1) clazz) (\<lambda>class_id.
               and_then (dispatch_scan table index class_id 4) (\<lambda>target.
                 enter_function env s1 target))))"

definition InvokeMethodVtable :: "env \<Rightarrow> state \<Rightarrow> outcome result" where
  "InvokeMethodVtable env s0 =
     and_then (OPCODE_BEGIN env s0) (\<lambda>s.
       let selector = ReadInt32 env s 1;
           arity = ArityField_decode env selector;
           offset = IdField_decode env selector;
           receiver = Local s arity;
           s1 = PushReturnAddress s (kInvokeMethodVtableLength env);
           clazz = receiver_class env (process s1) receiver
       in and_then (Class_id (process s1) clazz) (\<lambda>class_id.
          and_then (Array_get (vtable env) (class_id + offset)) (\<lambda>entry.
          and_then (and_then (Array_get entry 0) Smi_value) (\<lambda>stored.
          and_then (if stored \<noteq> offset then Array_get (vtable env) 0 else Inr entry) (\<lambda>entry.
          and_then (Array_get entry 2) (\<lambda>target.
            enter_function env s1 target))))))"

subsection \<open>Allocation\<close>

definition IsFailure :: "object \<Rightarrow> bool" where
  "IsFailure obj = (case obj of Failure f \<Rightarrow> True | _ \<Rightarrow> False)"

text \<open>
  \<^verbatim>\<open>for (int i = fields - 1; i >= 0; --i) instance->SetInstanceField(i, Pop());\<close>
\<close>

function fill_fields :: "state \<Rightarrow> object \<Rightarrow> int \<Rightarrow> state result" where
  "fill_fields s instance i =
     (if 0 \<le> i then
        (let (v, s1) = Pop s in
         case SetInstanceField (process s1) instance i v of
           Inl e \<Rightarrow> Inl e
         | Inr p \<Rightarrow> fill_fields (s1\<lparr>process := p\<rparr>) instance (i - 1))
      else Inr s)"
  by pat_completeness auto
termination
  by (relation "measure (\<lambda>(s, instance, i). nat (i + 1))") auto

text \<open>
  \<^verbatim>\<open>for (int i = 0; i < fields; i++) if (!Local(i)->IsImmutable()) { immutable = false; break; }\<close>
\<close>

definition operands_immutable :: "env \<Rightarrow> state \<Rightarrow> int \<Rightarrow> bool" where
  "operands_immutable env s n_fields =
     list_all (\<lambda>i. IsImmutable env (process s) (Local s i)) [0..n_fields - 1]"

text \<open>\<^verbatim>\<open>ASSERT(klass->id() == index)\<close>: the class is read in a debug build only.\<close>

definition ASSERT_class_id :: "env \<Rightarrow> process \<Rightarrow> object \<Rightarrow> int \<Rightarrow> unit result" where
  "ASSERT_class_id env p klass index =
     (if DEBUG env
      then and_then (Class_id p klass) (\<lambda>i. if i = index then Inr () else Inl AssertionFailed)
      else Inr ())"

definition Allocate :: "env \<Rightarrow> state \<Rightarrow> outcome result" where
  "Allocate env s0 =
     and_then (OPCODE_BEGIN env s0) (\<lambda>s.
       let index = ReadInt32 env s 1;
           klass = class_at env index
       in and_then (ASSERT_class_id env (process s) klass index) (\<lambda>_.
          GC_AND_RETRY_ON_ALLOCATION_FAILURE env s (NewInstance env (process s) klass False)
            (\<lambda>result s1.
               and_then (NumberOfInstanceFields (process s1) klass) (\<lambda>n_fields.
               and_then (fill_fields s1 result (n_fields - 1)) (\<lambda>s2.
                 Inr (Dispatch (Advance (Push s2 result) (kAllocateLength env))))))))"

definition AllocateUnfold :: "env \<Rightarrow> state \<Rightarrow> outcome result" where
  "AllocateUnfold env s0 =
     and_then (OPCODE_BEGIN env s0) (\<lambda>s.
       let klass = ReadConstant env s
       in GC_AND_RETRY_ON_ALLOCATION_FAILURE env s (NewInstance env (process s) klass False)
            (\<lambda>result s1.
               and_then (NumberOfInstanceFields (process s1) klass) (\<lambda>n_fields.
               and_then (fill_fields s1 result (n_fields - 1)) (\<lambda>s2.
                 Inr (Dispatch (Advance (Push s2 result) (kAllocateLength env)))))))"

definition AllocateImmutable :: "env \<Rightarrow> state \<Rightarrow> outcome result" where
  "AllocateImmutable env s0 =
     and_then (OPCODE_BEGIN env s0) (\<lambda>s.
       let index = ReadInt32 env s 1;
           klass = class_at env index
       in and_then (ASSERT_class_id env (process s) klass index) (\<lambda>_.
          and_then (NumberOfInstanceFields (process s) klass) (\<lambda>n_fields.
            let immutable = operands_immutable env s n_fields
            in GC_AND_RETRY_ON_ALLOCATION_FAILURE env s
                 (NewInstance env (process s) klass immutable)
                 (\<lambda>result s1.
                    and_then (fill_fields s1 result (n_fields - 1)) (\<lambda>s2.
                      Inr (Dispatch (Advance (Push s2 result)
                                       (kAllocateImmutableLength env))))))))"

definition AllocateImmutableUnfold :: "env \<Rightarrow> state \<Rightarrow> outcome result" where
  "AllocateImmutableUnfold env s0 =
     and_then (OPCODE_BEGIN env s0) (\<lambda>s.
       let klass = ReadConstant env s
       in and_then (NumberOfInstanceFields (process s) klass) (\<lambda>n_fields.
            let immutable = operands_immutable env s n_fields
            in GC_AND_RETRY_ON_ALLOCATION_FAILURE env s
                 (NewInstance env (process s) klass immutable)
                 (\<lambda>result s1.
                    and_then (fill_fields s1 result (n_fields - 1)) (\<lambda>s2.
                      Inr (Dispatch (Advance (Push s2 result)
                                       (kAllocateImmutableUnfoldLength env)))))))"

definition AllocateBoxed :: "env \<Rightarrow> state \<Rightarrow> outcome result" where
  "AllocateBoxed env s0 =
     and_then (OPCODE_BEGIN env s0) (\<lambda>s.
       let v = Local s 0
       in GC_AND_RETRY_ON_ALLOCATION_FAILURE env s (NewBoxed env (process s) v)
            (\<lambda>raw_boxed s1.
               Inr (Dispatch (Advance (SetTop s1 raw_boxed) (kAllocateBoxedLength env)))))"

text \<open>
  The opcodes that use \<^verbatim>\<open>GC_AND_RETRY_ON_ALLOCATION_FAILURE\<close>, the code at the label of
  each, and the allocation each hands to the macro (evaluated in the state the opcode
  starts in, for a run without \<^verbatim>\<open>Flags::validate_stack\<close>).
\<close>

datatype allocating_opcode =
  kAllocate | kAllocateUnfold | kAllocateImmutable | kAllocateImmutableUnfold
  | kAllocateBoxed | kInvokeNative | kInvokeNativeYield

fun opcode_label :: "env \<Rightarrow> allocating_opcode \<Rightarrow> state \<Rightarrow> outcome result" where
  "opcode_label env kAllocate = Allocate env"
| "opcode_label env kAllocateUnfold = AllocateUnfold env"
| "opcode_label env kAllocateImmutable = AllocateImmutable env"
| "opcode_label env kAllocateImmutableUnfold = AllocateImmutableUnfold env"
| "opcode_label env kAllocateBoxed = AllocateBoxed env"
| "opcode_label env kInvokeNative = InvokeNative env"
| "opcode_label env kInvokeNativeYield = InvokeNativeYield env"

fun allocation :: "env \<Rightarrow> allocating_opcode \<Rightarrow> state \<Rightarrow> (object \<times> process) result" where
  "allocation env kAllocate s =
     and_then (ASSERT_class_id env (process s) (class_at env (ReadInt32 env s 1)) (ReadInt32 env s 1))
       (\<lambda>_. Inr (NewInstance env (process s) (class_at env (ReadInt32 env s 1)) False))"
| "allocation env kAllocateUnfold s =
     Inr (NewInstance env (process s) (ReadConstant env s) False)"
| "allocation env kAllocateImmutable s =
     and_then (ASSERT_class_id env (process s) (class_at env (ReadInt32 env s 1)) (ReadInt32 env s 1))
       (\<lambda>_. and_then (NumberOfInstanceFields (process s) (class_at env (ReadInt32 env s 1)))
         (\<lambda>n_fields. Inr (NewInstance env (process s) (class_at env (ReadInt32 env s 1))
                             (operands_immutable env s n_fields))))"
| "allocation env kAllocateImmutableUnfold s =
     and_then (NumberOfInstanceFields (process s) (ReadConstant env s))
       (\<lambda>n_fields. Inr (NewInstance env (process s) (ReadConstant env s)
                           (operands_immutable env s n_fields)))"
| "allocation env kAllocateBoxed s = Inr (NewBoxed env (process s) (Local s 0))"
| "allocation env kInvokeNative s =
     Inr (kNativeTable env (ReadByte env s 2) (process s) (LocalPointer s (ReadByte env s 1)))"
| "allocation env kInvokeNativeYield s =
     Inr (kNativeTable env (ReadByte env s 2) (process s) (LocalPointer s (ReadByte env s 1)))"

text \<open>
  \<open>stack_kept p q a\<close>: the process \<open>q\<close> has the current stack of \<open>p\<close>, and the slots up
  to the address \<open>a\<close> hold in \<open>q\<close> what they hold in \<open>p\<close>.
\<close>

definition stack_kept :: "process \<Rightarrow> process \<Rightarrow> addr \<Rightarrow> bool" where
  "stack_kept p q a \<longleftrightarrow>
     Process_stack q = Process_stack p \<and> (\<forall>x. x \<le> a \<longrightarrow> mem q x = mem p x)"

text \<open>
  \<open>stack_moved forward p q\<close>: the current stack of \<open>q\<close> has the top of the current
  stack of \<open>p\<close>, and each of its slots up to the top holds \<open>forward\<close> of what the slot
  holds in \<open>p\<close>. The stack may be another heap object at another address; \<open>forward\<close> is
  the collector's map from a reference before the collection to the reference after it
  (the identity where references are kept).
\<close>

definition stack_moved :: "(object \<Rightarrow> object) \<Rightarrow> process \<Rightarrow> process \<Rightarrow> bool" where
  "stack_moved forward p q \<longleftrightarrow>
     (case Process_stack p of
        Inr (r, base, tp) \<Rightarrow>
          (case Process_stack q of
             Inr (r', base', tp') \<Rightarrow>
               tp' = tp \<and> (\<forall>i\<in>{0..tp}. mem q (base' + i) = forward (mem p (base + i)))
           | Inl e \<Rightarrow> False)
      | Inl e \<Rightarrow> False)"

subsection \<open>Throw\<close>

text \<open>
  What \<^verbatim>\<open>HandleThrow\<close> ends with: a catch block (its bytecode pointer and the stack
  delta), \<^verbatim>\<open>NULL\<close> for an uncaught exception told to the session, or \<^verbatim>\<open>exit(1)\<close>. The
  loop over the callers need not end, so the function is partial: \<open>None\<close> is a loop
  that does not return.
\<close>

datatype unwound = Catch addr int process | Uncaught process | Exits int process

partial_function (option) HandleThrow :: "env \<Rightarrow> object \<Rightarrow> process \<Rightarrow> unwound result option" where
  "HandleThrow env exception p =
     (let (catch_bcp, stack_delta) = ComputeCatchBlock env p in
      if catch_bcp \<noteq> 0 then Some (Inr (Catch catch_bcp stack_delta p))
      else
        (let current = coroutine p in
         if \<not> has_caller env p current then
           (let p1 = p\<lparr>events := events p @
                         [Printf (''Uncaught exception:'' @ [CHR 0x0A]), ObjectPrint exception]\<rparr>
            in if session env = Some True
               then Some (Inr (Uncaught (p1\<lparr>events := events p1 @ [Session_UncaughtException]\<rparr>)))
               else Some (Inr (Exits 1 p1)))
         else
           (case Coroutine_caller p current of
              Inl e \<Rightarrow> Some (Inl e)
            | Inr caller \<Rightarrow>
                (case and_then (set_stack (UpdateCoroutine p caller) current (null_object env))
                        (\<lambda>p2. set_caller p2 current current) of
                   Inl e \<Rightarrow> Some (Inl e)
                 | Inr p3 \<Rightarrow> HandleThrow env exception p3))))"

definition Throw :: "env \<Rightarrow> state \<Rightarrow> outcome result option" where
  "Throw env s0 =
     (case and_then (OPCODE_BEGIN env s0) (\<lambda>s. and_then (SaveState s) (\<lambda>s1. Inr (Local s 0, s1))) of
        Inl e \<Rightarrow> Some (Inl e)
      | Inr (exception, s1) \<Rightarrow>
          (case HandleThrow env exception (process s1) of
             None \<Rightarrow> None
           | Some (Inl e) \<Rightarrow> Some (Inl e)
           | Some (Inr (Exits status p)) \<Rightarrow> Some (Inr (Exit status p))
           | Some (Inr (Uncaught p)) \<Rightarrow>
               Some (Inr (Surrender kUncaughtException (s1\<lparr>process := p\<rparr>)))
           | Some (Inr (Catch catch_bcp stack_delta p)) \<Rightarrow>
               Some (and_then (RestoreState env (s1\<lparr>process := p\<rparr>)) (\<lambda>s2.
                     and_then (Goto env s2 catch_bcp) (\<lambda>s3.
                       Inr (Dispatch (SetTop (Drop s3 (stack_delta - 1)) exception)))))))"

text \<open>
  Modelled from the spec: \<^verbatim>\<open>Object::Print\<close> is not in the sources; the spec has the
  exception's \<^verbatim>\<open>Print()\<close> emitted to stderr. \<^verbatim>\<open>printf\<close> writes to stdout.
\<close>

datatype stream = Stdout | Stderr

fun stream_of :: "event \<Rightarrow> stream option" where
  "stream_of (Printf text) = Some Stdout"
| "stream_of (ObjectPrint obj) = Some Stderr"
| "stream_of Session_UncaughtException = None"

section \<open>An example program and example states\<close>

text \<open>
  A concrete program, concrete collaborators and concrete states, on which the
  theorems below are run. Selectors keep their arity in the low eight bits, their kind
  in the next two (2 is a setter) and their id above; the opcodes 40, 41 and 42 stand for
  the normal, fast and vtable invokes.
\<close>

definition example_heap :: "nat \<Rightarrow> heap_object option" where
  "example_heap =
     [0 \<mapsto> Instance [], 1 \<mapsto> Instance [], 2 \<mapsto> Instance [],
      5 \<mapsto> Double 0x7FF8000000000000, 6 \<mapsto> Double 0x7FF8000000000000,
      7 \<mapsto> Double 0, 8 \<mapsto> Double 0x8000000000000000,
      9 \<mapsto> LargeInteger 0x10000000000, 10 \<mapsto> LargeInteger 0x10000000000,
      40 \<mapsto> Coroutine (HeapObject 41) (HeapObject 40), 41 \<mapsto> Stack 100 3,
      50 \<mapsto> Coroutine (HeapObject 51) (HeapObject 40), 51 \<mapsto> Stack 0 0,
      100 \<mapsto> Class 0 2, 101 \<mapsto> Class 1 0,
      200 \<mapsto> Instance [HeapObject 0, HeapObject 0],
      300 \<mapsto> Function 5000]"

definition example_process :: process where
  "example_process =
     \<lparr>heap = example_heap, mem = (\<lambda>a. Smi 0), coroutine = HeapObject 50,
      c_memory = (\<lambda>a. 0), events = []\<rparr>"

definition example_env :: env where
  "example_env =
     \<lparr>null_object = HeapObject 0, true_object = HeapObject 1, false_object = HeapObject 2,
      class_at = (\<lambda>i. HeapObject (100 + nat i)),
      constant_for_bytecode = (\<lambda>a. HeapObject 100),
      dispatch_table = [],
      vtable = [],
      smi_class = HeapObject 101,
      ObjectFromFailure = (\<lambda>f. HeapObject 3),
      bytecodes = (\<lambda>a. 0),
      session = None,
      DEBUG = True, Flags_validate_stack = False, kNumBytecodes = 128,
      ArityField_decode = (\<lambda>x. x mod 256),
      IdField_decode = (\<lambda>x. x div 1024),
      KindField_decode = (\<lambda>x. x div 256 mod 4),
      SETTER = 2,
      IsInvokeFast = (\<lambda>opcode. opcode = 41),
      IsInvokeVtable = (\<lambda>opcode. opcode = 42),
      IsInvokeNormal = (\<lambda>opcode. opcode = 40),
      kAllocateLength = 5, kAllocateImmutableLength = 5, kAllocateImmutableUnfoldLength = 5,
      kAllocateBoxedLength = 1, kInvokeNativeLength = 3, kInvokeNativeYieldLength = 3,
      kInvokeMethodLength = 5, kInvokeMethodFastLength = 5, kInvokeMethodVtableLength = 5,
      kIdenticalLength = 1, kIdenticalNonNumericLength = 1, kEnterNoSuchMethodLength = 1,
      NewInstance = (\<lambda>p klass immutable. (Failure retry_after_gc, p)),
      NewBoxed = (\<lambda>p v. (Failure retry_after_gc, p)),
      ToInteger = (\<lambda>p v. if - (2 ^ 62) \<le> v \<and> v < 2 ^ 62 then (Smi v, p)
                            else (Failure retry_after_gc, p)),
      Process_CollectGarbage = (\<lambda>p. p),
      IsImmutable = (\<lambda>p obj. True),
      get_class = (\<lambda>p obj. HeapObject 100),
      kNativeTable = (\<lambda>n p arguments. (Failure retry_after_gc, p)),
      debug_info = (\<lambda>p. None),
      ComputeCatchBlock = (\<lambda>p. (0, 0)),
      has_caller = (\<lambda>p c. False),
      stack_limit = (\<lambda>p. 1000),
      Process_HandleStackOverflow = (\<lambda>p n. (False, p)),
      LookupEntry_target = (\<lambda>p receiver selector. HeapObject 300),
      computed_stack_height = (\<lambda>p. 0),
      IsLocked = (\<lambda>p port. True),
      calloc = (\<lambda>p n. 4096),
      foreign_function = (\<lambda>a ws p. (0, p))\<rparr>"

text \<open>\<^verbatim>\<open>Return 2 1\<close> at bytecode address 1000, with the result 5 on top of two locals.\<close>

definition return_env :: env where
  "return_env = example_env\<lparr>bytecodes := (\<lambda>a. 0)(1000 := 71, 1001 := 2, 1002 := 1)\<rparr>"

definition return_state :: state where
  "return_state =
     \<lparr>process = example_process\<lparr>mem := (\<lambda>a. Smi 0)(7 := Smi 11, 8 := Raw 2000, 10 := Smi 5)\<rparr>,
      sp = 10, bcp = 1000, yield_target = None\<rparr>"

text \<open>
  A fast invoke of the dispatch table index 2 that ends at address 1000, a normal
  invoke of the selector 513 (a setter of arity 1) that ends at address 900 and a fast
  invoke of the dispatch table index 3 that ends at address 800; the stack holds a
  receiver, the assigned value 7 and the return address. The dispatch table has the
  selector 513 at 2 + 1 and, at 3 + 1, the Smi \<open>2 ^ 31 + 513\<close>, which is no \<^verbatim>\<open>int\<close>.
\<close>

definition nsm_env :: env where
  "nsm_env = example_env
     \<lparr>bytecodes := (\<lambda>a. 0)(995 := 41, 996 := 2, 895 := 40, 896 := 1, 897 := 2,
                              795 := 41, 796 := 3),
      dispatch_table := [Smi 0, Smi 0, Smi 0, Smi 513, Smi 2147484161]\<rparr>"

definition nsm_enter_state :: "addr \<Rightarrow> state" where
  "nsm_enter_state return_address =
     \<lparr>process = example_process
        \<lparr>mem := (\<lambda>a. Smi 0)(8 := HeapObject 200, 9 := Smi 7, 10 := Raw return_address)\<rparr>,
      sp = 10, bcp = 3000, yield_target = None\<rparr>"

definition nsm_exit_state :: "int \<Rightarrow> state" where
  "nsm_exit_state selector =
     \<lparr>process = example_process
        \<lparr>mem := (\<lambda>a. Smi 0)(8 := HeapObject 200, 9 := Smi 7, 10 := Raw 1000,
                             11 := Smi selector, 12 := Smi 99)\<rparr>,
      sp = 12, bcp = 3001, yield_target = None\<rparr>"

text \<open>
  Three natives of arity 2: one returns the port at address 7777, one null, one the
  failure \<open>index_out_of_bounds\<close>.
\<close>

definition yield_env :: env where
  "yield_env = example_env
     \<lparr>bytecodes := (\<lambda>a. 0)(1000 := 60, 1001 := 2, 1002 := 0,
                             1100 := 60, 1101 := 2, 1102 := 1,
                             1200 := 60, 1201 := 2, 1202 := 2),
      kNativeTable := (\<lambda>n p arguments.
         if n = 0 then (Raw 7777, p)
         else if n = 1 then (HeapObject 0, p)
         else (Failure index_out_of_bounds, p))\<rparr>"

definition yield_state :: "addr \<Rightarrow> state" where
  "yield_state b =
     \<lparr>process = example_process
        \<lparr>mem := (\<lambda>a. Smi 0)(8 := Smi 21, 9 := Smi 22, 10 := Raw 2000)\<rparr>,
      sp = 10, bcp = b, yield_target = None\<rparr>"

definition yield_saved :: process where
  "yield_saved = example_process
     \<lparr>mem := (\<lambda>a. Smi 0)(8 := HeapObject 0, 9 := Raw 2000, 10 := Raw 2000),
      heap := example_heap(51 \<mapsto> Stack 0 9)\<rparr>"

text \<open>Two NaN objects on top of the stack.\<close>

definition identical_state :: state where
  "identical_state =
     \<lparr>process = example_process\<lparr>mem := (\<lambda>a. Smi 0)(9 := HeapObject 5, 10 := HeapObject 6)\<rparr>,
      sp = 10, bcp = 1000, yield_target = None\<rparr>"

text \<open>
  Argument slots of foreign natives, and a foreign function at address 9000 that returns
  the sum of its argument words.
\<close>

definition ffi_process :: process where
  "ffi_process = example_process
     \<lparr>mem := (\<lambda>a. Smi 0)(5 := Smi 8, 20 := Smi 4096, 21 := Smi (- 1),
                         30 := Smi 9000, 31 := Smi 0x10000000000, 32 := Smi 5)\<rparr>"

definition ffi_env :: env where
  "ffi_env = example_env\<lparr>foreign_function := (\<lambda>a ws p. (if a = 9000 then sum_list ws else 0, p))\<rparr>"



text \<open>
  An allocator that fails with \<open>retry_after_gc\<close> while the heap cell 200 is taken, and a
  moving collector: it frees that cell, moves the object 7 to the cell 70 and the stack 51
  of the current coroutine, with its slots, to the cell 52 at address 500. The stack of
  \<^verbatim>\<open>Allocate 0\<close> holds two operands, the object 7 and the Smi 2.
\<close>

definition retry_forward :: "object \<Rightarrow> object" where
  "retry_forward obj = (if obj = HeapObject 7 then HeapObject 70 else obj)"

definition retry_collect :: "process \<Rightarrow> process" where
  "retry_collect p =
     (case heap p 51 of
        Some (Stack base tp) \<Rightarrow>
          p\<lparr>heap := (heap p)(200 := None, 70 := heap p 7, 7 := None,
                             52 \<mapsto> Stack 500 tp, 51 := None,
                             50 \<mapsto> Coroutine (HeapObject 52) (HeapObject 40)),
            mem := (\<lambda>a. if 500 \<le> a then retry_forward (mem p (base + (a - 500)))
                         else mem p a)\<rparr>
      | _ \<Rightarrow> p)"

definition retry_env :: env where
  "retry_env = example_env
     \<lparr>bytecodes := (\<lambda>a. 0)(1000 := 50),
      NewInstance := (\<lambda>p klass immutable.
         if heap p 200 \<noteq> None then (Failure retry_after_gc, p)
         else (HeapObject 200, p\<lparr>heap := (heap p)(200 \<mapsto> Instance [HeapObject 0, HeapObject 0])\<rparr>)),
      Process_CollectGarbage := retry_collect\<rparr>"

definition retry_state :: state where
  "retry_state =
     \<lparr>process = example_process\<lparr>mem := (\<lambda>a. Smi 0)(9 := HeapObject 7, 10 := Smi 2)\<rparr>,
      sp = 10, bcp = 1000, yield_target = None\<rparr>"

definition retry_saved :: process where
  "retry_saved = example_process
     \<lparr>mem := (\<lambda>a. Smi 0)(9 := HeapObject 7, 10 := Smi 2, 11 := Raw 1000),
      heap := example_heap(51 \<mapsto> Stack 0 11)\<rparr>"

definition retry_again :: state where
  "retry_again =
     \<lparr>process = retry_collect retry_saved, sp = 510, bcp = 1000, yield_target = None\<rparr>"

text \<open>
  The current coroutine 50 throws the object 200. Its caller, the coroutine 40, has the
  stack at address 100 with the saved bytecode pointer 4000 on top. In \<open>throw_env\<close> only
  the caller's stack has a catch block; in \<open>catch_env\<close> every stack has one; in
  \<open>uncaught_env\<close> none has, and no coroutine has a caller.
\<close>

definition throw_env :: env where
  "throw_env = example_env
     \<lparr>ComputeCatchBlock := (\<lambda>p. if coroutine p = HeapObject 40 then (6000, 2) else (0, 0)),
      has_caller := (\<lambda>p c. c = HeapObject 50)\<rparr>"

definition throw_state :: state where
  "throw_state =
     \<lparr>process = example_process
        \<lparr>mem := (\<lambda>a. Smi 0)(10 := HeapObject 200, 101 := Smi 31, 102 := Smi 32, 103 := Raw 4000)\<rparr>,
      sp = 10, bcp = 1000, yield_target = None\<rparr>"

definition throw_saved :: process where
  "throw_saved = example_process
     \<lparr>mem := (\<lambda>a. Smi 0)(10 := HeapObject 200, 101 := Smi 31, 102 := Smi 32, 103 := Raw 4000,
                         11 := Raw 1000),
      heap := example_heap(51 \<mapsto> Stack 0 11)\<rparr>"

definition throw_unwound :: process where
  "throw_unwound = throw_saved
     \<lparr>coroutine := HeapObject 40,
      heap := (heap throw_saved)(50 \<mapsto> Coroutine (HeapObject 0) (HeapObject 50))\<rparr>"

definition catch_env :: env where
  "catch_env = example_env\<lparr>ComputeCatchBlock := (\<lambda>p. (6000, 3))\<rparr>"

definition uncaught_env :: "bool option \<Rightarrow> env" where
  "uncaught_env debugging = example_env\<lparr>session := debugging\<rparr>"


text \<open>
  A program with one method: the selector 3072 (id 3, arity 0) on the class with id 7 is the
  function at 5000, and the function at 6000 is the trampoline for a missing method. The
  dispatch table has one segment for the selector at index 0, the vtable has the method at
  7 + 3, and the lookup cache answers with \<open>cached\<close>. The three invokes are at 1000,
  1100 and 1200.
\<close>

definition dispatch_env :: "object \<Rightarrow> env" where
  "dispatch_env cached = example_env
     \<lparr>bytecodes := (\<lambda>a. 0)(1000 := 40, 1002 := 12, 1100 := 41, 1200 := 42, 1202 := 12),
      dispatch_table :=
        [Smi 0, Smi 3072, Smi 0, Smi 0,
         Smi 0, Smi 7, Smi 0, HeapObject 301,
         Smi 7, Smi 8, Smi 0, HeapObject 300,
         Smi 8, Smi 4611686018427387903, Smi 0, HeapObject 301],
      vtable :=
        [[Smi 0, Smi 0, HeapObject 301, Smi 0], [], [], [], [], [], [], [], [], [],
         [Smi 3, Smi 3072, HeapObject 300, Smi 0]],
      get_class := (\<lambda>p obj. HeapObject 107),
      LookupEntry_target := (\<lambda>p receiver selector. cached)\<rparr>"

definition dispatch_state :: "addr \<Rightarrow> state" where
  "dispatch_state b =
     \<lparr>process = example_process
        \<lparr>mem := (\<lambda>a. Smi 0)(10 := HeapObject 200),
         heap := example_heap(107 \<mapsto> Class 7 0, 301 \<mapsto> Function 6000)\<rparr>,
      sp = 10, bcp = b, yield_target = None\<rparr>"

definition dispatch_entered :: "addr \<Rightarrow> addr \<Rightarrow> state" where
  "dispatch_entered b target =
     \<lparr>process = example_process
        \<lparr>mem := (\<lambda>a. Smi 0)(10 := HeapObject 200, 11 := Raw (b + 5)),
         heap := example_heap(107 \<mapsto> Class 7 0, 301 \<mapsto> Function 6000)\<rparr>,
      sp = 11, bcp = target, yield_target = None\<rparr>"
section \<open>Basic facts\<close>

lemma and_then_Inr [simp]: "and_then (Inr x) k = k x"
  by (simp add: and_then_def)

lemma and_then_Inl [simp]: "and_then (Inl e) k = Inl e"
  by (simp add: and_then_def)

lemma OPCODE_BEGIN_off [simp]: "\<not> Flags_validate_stack env \<Longrightarrow> OPCODE_BEGIN env s = Inr s"
  by (simp add: OPCODE_BEGIN_def)

lemmas state_ops = Top_def SetTop_def Local_def SetLocal_def LocalPointer_def Pop_def Push_def
  Drop_def Goto_def Advance_def ComputeReturnAddress_def PushReturnAddress_def
  PopReturnAddress_def ASSERT_def as_pointer_def

lemma Process_stack_mem [simp]: "Process_stack (p\<lparr>mem := m\<rparr>) = Process_stack p"
  by (auto simp: Process_stack_def split: object.splits option.splits heap_object.splits)

lemma read_bytes_numeral [simp]:
  "read_bytes m a (numeral k) = m a # read_bytes m (a + 1) (pred_numeral k)"
  by (simp add: numeral_eq_Suc)

subsection \<open>Foreign memory\<close>



lemma length_bytes_of [simp]: "length (bytes_of k v) = k"
  by (induction k arbitrary: v) auto






lemma AsForeignWord_c_memory [simp]: "AsForeignWord (p\<lparr>c_memory := m\<rparr>) obj = AsForeignWord p obj"
  by (auto simp: AsForeignWord_def split: object.splits option.splits heap_object.splits)

lemma AsForeignWord_mem [simp]: "AsForeignWord (p\<lparr>mem := m\<rparr>) obj = AsForeignWord p obj"
  by (auto simp: AsForeignWord_def split: object.splits option.splits heap_object.splits)




lemma foreign_words_nth:
  "foreign_words p arguments n = Inr ws \<Longrightarrow>
     length ws = n \<and> (\<forall>i<n. AsForeignWord p (mem p (arguments + 1 + int i)) = Inr (ws ! i))"
proof (induction n arbitrary: ws)
  case 0
  then show ?case by simp
next
  case (Suc n)
  from Suc.prems obtain ws' w where
    ws': "foreign_words p arguments n = Inr ws'" and
    w: "AsForeignWord p (mem p (arguments + 1 + int n)) = Inr w" and
    eq: "ws = ws' @ [w]"
    by (auto simp: and_then_def split: sum.splits)
  from Suc.IH [OF ws'] have len: "length ws' = n"
    and nth: "\<forall>i<n. AsForeignWord p (mem p (arguments + 1 + int i)) = Inr (ws' ! i)"
    by auto
  show ?case
  proof (intro conjI allI impI)
    show "length ws = Suc n" using len eq by simp
    fix i assume "i < Suc n"
    then show "AsForeignWord p (mem p (arguments + 1 + int i)) = Inr (ws ! i)"
      using nth w len eq by (cases "i = n") (auto simp: nth_append)
  qed
qed

lemma c_convert_int32_range:
  "- (2 ^ 31) \<le> c_convert int32 r \<and> c_convert int32 r < 2 ^ 31 \<and>
   c_convert int32 r mod 2 ^ 32 = r mod 2 ^ 32"
proof -
  have "0 \<le> r mod 4294967296" "r mod 4294967296 < 4294967296" by simp_all
  moreover have "(r mod 4294967296 - 4294967296) mod 4294967296 = r mod 4294967296"
    by (metis minus_mod_self2 mod_mod_trivial)
  ultimately show ?thesis
    by (auto simp: c_convert_def reinterpret_def)
qed

lemma c_convert_int32_id:
  assumes "- (2 ^ 31) \<le> v" and "v < 2 ^ 31"
  shows "c_convert int32 v = v"
proof (cases "0 \<le> v")
  case True
  then have "v mod 4294967296 = v"
    using assms by simp
  then show ?thesis
    using assms by (simp add: c_convert_def reinterpret_def)
next
  case False
  have "(v + 4294967296) mod 4294967296 = v + 4294967296"
    by (rule mod_pos_pos_trivial) (use assms False in simp_all)
  then have "v mod 4294967296 = v + 4294967296"
    by simp
  then show ?thesis
    using False assms by (simp add: c_convert_def reinterpret_def)
qed

lemma ForeignCall_natives_nth:
  "n < 7 \<Longrightarrow> (ForeignCall_natives ! n) env = ForeignCall env n"
proof -
  assume "n < 7"
  then consider "n = 0" | "n = 1" | "n = 2" | "n = 3" | "n = 4" | "n = 5" | "n = 6" by linarith
  then show ?thesis
    by cases
      (simp_all add: ForeignCall_natives_def Native_ForeignCall0_def Native_ForeignCall1_def
        Native_ForeignCall2_def Native_ForeignCall3_def Native_ForeignCall4_def
        Native_ForeignCall5_def Native_ForeignCall6_def)
qed

subsection \<open>Saving and restoring the state\<close>

lemma Process_stack_set_top:
  assumes "Process_stack p = Inr (r, base, tp)"
  shows "Process_stack (p\<lparr>heap := (heap p)(r \<mapsto> Stack base t)\<rparr>) = Inr (r, base, t)"
  using assms
  by (auto simp: Process_stack_def split: object.splits option.splits heap_object.splits)

lemma SaveState_result:
  assumes "Process_stack (process s) = Inr (r, base, tp)"
  shows "SaveState s =
           Inr (s\<lparr>sp := sp s + 1,
                  process := (process s)\<lparr>mem := (mem (process s))(sp s + 1 := Raw (bcp s)),
                                          heap := (heap (process s))(r \<mapsto> Stack base (sp s + 1 - base))\<rparr>\<rparr>)"
  using assms by (simp add: SaveState_def Push_def SetTopFromPointer_def)

lemma RestoreState_result:
  assumes "Process_stack (process s) = Inr (r, base, tp)"
      and "mem (process s) (base + tp) = Raw b"
      and "\<not> DEBUG env \<or> b \<noteq> 0"
  shows "RestoreState env s = Inr (s\<lparr>sp := base + tp - 1, bcp := b\<rparr>)"
  using assms by (auto simp: RestoreState_def Pop_def as_pointer_def ASSERT_def)

lemma Engine_CollectGarbage_result:
  assumes "Process_stack p1 = Inr (r, base, tp)"
      and "saved = p1\<lparr>mem := (mem p1)(sp s + 1 := Raw (bcp s)),
                       heap := (heap p1)(r \<mapsto> Stack base (sp s + 1 - base))\<rparr>"
      and "Process_stack (Process_CollectGarbage env saved) = Inr (r', base', tp')"
      and "mem (Process_CollectGarbage env saved) (base' + tp') = Raw b"
      and "\<not> DEBUG env \<or> b \<noteq> 0"
  shows "Engine_CollectGarbage env (s\<lparr>process := p1\<rparr>) =
           Inr (s\<lparr>sp := base' + tp' - 1, bcp := b, process := Process_CollectGarbage env saved\<rparr>)"
proof -
  let ?s1 = "s\<lparr>process := p1\<rparr>"
  have save: "SaveState ?s1 = Inr (s\<lparr>sp := sp s + 1, process := saved\<rparr>)"
    using SaveState_result [of ?s1 r base tp] assms(1,2) by simp
  let ?gc = "Process_CollectGarbage env saved"
  have "RestoreState env (s\<lparr>sp := sp s + 1, process := ?gc\<rparr>) =
          Inr (s\<lparr>sp := sp s + 1, process := ?gc\<rparr>\<lparr>sp := base' + tp' - 1, bcp := b\<rparr>)"
    using RestoreState_result [of "s\<lparr>sp := sp s + 1, process := ?gc\<rparr>" r' base' tp' b env]
      assms(3,4,5) by simp
  then show ?thesis
    using save by (simp add: Engine_CollectGarbage_def)
qed

lemma GC_AND_RETRY_retry:
  assumes "Process_stack p1 = Inr (r, base, tp)"
      and "saved = p1\<lparr>mem := (mem p1)(sp s + 1 := Raw (bcp s)),
                       heap := (heap p1)(r \<mapsto> Stack base (sp s + 1 - base))\<rparr>"
      and "Process_stack (Process_CollectGarbage env saved) = Inr (r', base', tp')"
      and "mem (Process_CollectGarbage env saved) (base' + tp') = Raw b"
      and "\<not> DEBUG env \<or> b \<noteq> 0"
  shows "GC_AND_RETRY_ON_ALLOCATION_FAILURE env s (Failure retry_after_gc, p1) k =
           Inr (Dispatch (s\<lparr>sp := base' + tp' - 1, bcp := b,
                            process := Process_CollectGarbage env saved\<rparr>))"
  using Engine_CollectGarbage_result [OF assms]
  by (simp add: GC_AND_RETRY_ON_ALLOCATION_FAILURE_def)

lemma and_then_eq_Inr:
  "and_then m k = Inr y \<longleftrightarrow> (\<exists>x. m = Inr x \<and> k x = Inr y)"
  by (cases m) simp_all

lemma opcode_label_retry:
  assumes off: "\<not> Flags_validate_stack env"
      and alloc: "allocation env opcode s = Inr (Failure retry_after_gc, p1)"
      and st: "Process_stack p1 = Inr (r, base, tp)"
      and saved: "saved = p1\<lparr>mem := (mem p1)(sp s + 1 := Raw (bcp s)),
                       heap := (heap p1)(r \<mapsto> Stack base (sp s + 1 - base))\<rparr>"
      and st': "Process_stack (Process_CollectGarbage env saved) = Inr (r', base', tp')"
      and top: "mem (Process_CollectGarbage env saved) (base' + tp') = Raw b"
      and dbg: "\<not> DEBUG env \<or> b \<noteq> 0"
  shows "opcode_label env opcode s =
           Inr (Dispatch (s\<lparr>sp := base' + tp' - 1, bcp := b,
                            process := Process_CollectGarbage env saved\<rparr>))"
proof -
  note retry = GC_AND_RETRY_retry [OF st saved st' top dbg]
  show ?thesis
  proof (cases opcode)
    case kAllocate
    with alloc off show ?thesis
      by (auto simp: Allocate_def Let_def and_then_eq_Inr retry)
  next
    case kAllocateUnfold
    with alloc off show ?thesis
      by (auto simp: AllocateUnfold_def Let_def and_then_eq_Inr retry)
  next
    case kAllocateImmutable
    with alloc off show ?thesis
      by (auto simp: AllocateImmutable_def Let_def and_then_eq_Inr retry)
  next
    case kAllocateImmutableUnfold
    with alloc off show ?thesis
      by (auto simp: AllocateImmutableUnfold_def Let_def and_then_eq_Inr retry)
  next
    case kAllocateBoxed
    with alloc off show ?thesis
      by (auto simp: AllocateBoxed_def Let_def and_then_eq_Inr retry)
  next
    case kInvokeNative
    with alloc off show ?thesis
      by (auto simp: InvokeNative_def Let_def and_then_eq_Inr retry)
  next
    case kInvokeNativeYield
    with alloc off show ?thesis
      by (auto simp: InvokeNativeYield_def Let_def and_then_eq_Inr retry)
  qed
qed

subsection \<open>The unwinder\<close>

lemma HandleThrow_caught:
  assumes "ComputeCatchBlock env p = (catch_bcp, stack_delta)" and "catch_bcp \<noteq> 0"
  shows "HandleThrow env exception p = Some (Inr (Catch catch_bcp stack_delta p))"
  using assms by (subst HandleThrow.simps) simp

lemma HandleThrow_no_caller:
  assumes "fst (ComputeCatchBlock env p) = 0" and "\<not> has_caller env p (coroutine p)"
  shows "HandleThrow env exception p =
           (let p1 = p\<lparr>events := events p @
                         [Printf (''Uncaught exception:'' @ [CHR 0x0A]), ObjectPrint exception]\<rparr>
            in if session env = Some True
               then Some (Inr (Uncaught (p1\<lparr>events := events p1 @ [Session_UncaughtException]\<rparr>)))
               else Some (Inr (Exits 1 p1)))"
  using assms by (subst HandleThrow.simps) (simp add: case_prod_beta Let_def)

lemma HandleThrow_caller:
  assumes "fst (ComputeCatchBlock env p) = 0" and "has_caller env p (coroutine p)"
      and "coroutine p = HeapObject c" and "heap p c = Some (Coroutine stk caller)"
  shows "HandleThrow env exception p =
           HandleThrow env exception
             (p\<lparr>coroutine := caller,
                heap := (heap p)(c \<mapsto> Coroutine (null_object env) (HeapObject c))\<rparr>)"
  using assms
  by (subst HandleThrow.simps)
     (simp add: case_prod_beta Let_def Coroutine_caller_def set_stack_def set_caller_def
        UpdateCoroutine_def)

lemma throw_saved_eq:
  "throw_saved = (process throw_state)
      \<lparr>mem := (mem (process throw_state))(sp throw_state + 1 := Raw (bcp throw_state)),
       heap := (heap (process throw_state))(51 \<mapsto> Stack 0 (sp throw_state + 1 - 0))\<rparr>"
  by (simp add: throw_saved_def throw_state_def example_process_def fun_upd_twist)

lemma throw_state_stack: "Process_stack (process throw_state) = Inr (51, 0, 0)"
  by (simp add: throw_state_def example_process_def example_heap_def Process_stack_def)

subsection \<open>The scan of the dispatch table\<close>

lemma dispatch_scan_skip:
  assumes "Array_get table (index + offset) = Inr (Smi lower)"
      and "class_id < lower \<or>
           (Array_get table (index + offset + 1) = Inr (Smi upper) \<and> upper \<le> class_id)"
  shows "dispatch_scan table index class_id offset =
           dispatch_scan table index class_id (offset + 4)"
  using assms by (subst dispatch_scan.simps) (auto simp: Smi_value_def)

lemma dispatch_scan_match:
  assumes "Array_get table (index + offset) = Inr (Smi lower)"
      and "Array_get table (index + offset + 1) = Inr (Smi upper)"
      and "lower \<le> class_id" and "class_id < upper"
  shows "dispatch_scan table index class_id offset = Array_get table (index + offset + 3)"
  using assms by (subst dispatch_scan.simps) (auto simp: Smi_value_def)


text \<open>
  On the example program whose three tables hold the same method, the three invokes enter the
  same function, each with its own return address.
\<close>

lemmas dispatch_example_defs = dispatch_env_def dispatch_state_def dispatch_entered_def
  example_env_def example_process_def example_heap_def

lemma dispatch_env_flag [simp]: "\<not> Flags_validate_stack (dispatch_env cached)"
  by (simp add: dispatch_example_defs)

lemma dispatch_example_operands:
  "ReadInt32 (dispatch_env cached) (dispatch_state 1000) 1 = 3072"
  "ReadInt32 (dispatch_env cached) (dispatch_state 1100) 1 = 0"
  "ReadInt32 (dispatch_env cached) (dispatch_state 1200) 1 = 3072"
  by (simp_all add: dispatch_example_defs ReadInt32_def Utils_ReadInt32_def load_def
        reinterpret_def)

lemma dispatch_example_scan:
  "dispatch_scan (dispatch_table (dispatch_env cached)) 0 7 4 = Inr (HeapObject 300)"
proof -
  let ?t = "dispatch_table (dispatch_env cached)"
  have "dispatch_scan ?t 0 7 4 = dispatch_scan ?t 0 7 (4 + 4)"
    by (rule dispatch_scan_skip [where lower = 0 and upper = 7])
       (simp_all add: dispatch_example_defs Array_get_def)
  also have "\<dots> = Array_get ?t (0 + 8 + 3)"
    using dispatch_scan_match [of ?t 0 8 7 8 7]
    by (simp add: dispatch_example_defs Array_get_def)
  also have "\<dots> = Inr (HeapObject 300)"
    by (simp add: dispatch_example_defs Array_get_def)
  finally show ?thesis .
qed

lemma InvokeMethod_example:
  "InvokeMethod (dispatch_env (HeapObject 300)) (dispatch_state 1000) =
     Inr (Dispatch (dispatch_entered 1000 5000))"
  by (simp add: InvokeMethod_def dispatch_example_operands)
     (simp add: dispatch_example_defs enter_function_def bytecode_address_for_0_def
        StackOverflowCheck_def HasStackSpaceFor_def state_ops fun_upd_twist)

lemma InvokeMethodFast_example:
  "InvokeMethodFast (dispatch_env (HeapObject 300)) (dispatch_state 1100) =
     Inr (Dispatch (dispatch_entered 1100 5000))"
  by (simp add: InvokeMethodFast_def dispatch_example_operands)
     (simp add: dispatch_example_defs enter_function_def bytecode_address_for_0_def
        StackOverflowCheck_def HasStackSpaceFor_def state_ops fun_upd_twist
        Array_get_def Smi_value_def receiver_class_def Class_id_def c_convert_int32_id
        dispatch_example_scan [unfolded dispatch_example_defs, simplified])

lemma InvokeMethodVtable_example:
  "InvokeMethodVtable (dispatch_env (HeapObject 300)) (dispatch_state 1200) =
     Inr (Dispatch (dispatch_entered 1200 5000))"
  by (simp add: InvokeMethodVtable_def dispatch_example_operands)
     (simp add: dispatch_example_defs enter_function_def bytecode_address_for_0_def
        StackOverflowCheck_def HasStackSpaceFor_def state_ops fun_upd_twist
        Array_get_def Smi_value_def receiver_class_def Class_id_def)

text \<open>
  The function an invoke enters is the one its own table holds: with another entry in the
  lookup cache, the same \<open>InvokeMethod\<close> enters the function at 6000.
\<close>

lemma InvokeMethod_follows_the_cache:
  "InvokeMethod (dispatch_env (HeapObject 301)) (dispatch_state 1000) =
     Inr (Dispatch (dispatch_entered 1000 6000))"
  by (simp add: InvokeMethod_def dispatch_example_operands)
     (simp add: dispatch_example_defs enter_function_def bytecode_address_for_0_def
        StackOverflowCheck_def HasStackSpaceFor_def state_ops fun_upd_twist)
section \<open>Properties of the interpreter and the natives\<close>

text \<open>
  C1. Each of the seven allocating opcodes, when its allocation returns
  \<open>retry_after_gc\<close>: the engine saves the state, runs the garbage collection, restores
  the state from the current stack and reaches \<^verbatim>\<open>DISPATCH()\<close> with the bytecode pointer
  it started with, with the stack pointer as far above the bottom of the stack as it
  started, and with every slot of the stack up to the stack pointer, and so every
  operand counted from the top, holding what it held before the attempt, as the
  collector forwards it: the same value, where the collector keeps the references.
  \<^verbatim>\<open>DISPATCH()\<close>, unless the debugger breaks there, jumps to the label of the same opcode. The opcode has popped and pushed
  nothing: its stack effect comes after an allocation that succeeds. The collector may
  move the stack and the objects: it is taken to keep the top and the slots of the
  current stack up to its map \<open>forward\<close> of the references (\<open>stack_moved\<close>), which leaves
  the saved bytecode pointer as it is. The failed attempt is taken to leave the current
  stack as it is (\<open>stack_kept\<close>), and the stack pointer to be in the current stack;
  \<^verbatim>\<open>Flags::validate_stack\<close> is off.
\<close>

theorem allocation_failure_retries:
  assumes "\<not> Flags_validate_stack env"
      and "allocation env opcode s = Inr (Failure retry_after_gc, p1)"
      and "stack_kept (process s) p1 (sp s)"
      and "Process_stack (process s) = Inr (r, base, tp)"
      and "base \<le> sp s + 1"
      and "saved = p1\<lparr>mem := (mem p1)(sp s + 1 := Raw (bcp s)),
                       heap := (heap p1)(r \<mapsto> Stack base (sp s + 1 - base))\<rparr>"
      and "stack_moved forward saved (Process_CollectGarbage env saved)"
      and "Process_stack (Process_CollectGarbage env saved) = Inr (r', base', tp')"
      and "forward (Raw (bcp s)) = Raw (bcp s)"
      and "\<not> DEBUG env \<or> bcp s \<noteq> 0"
  shows "\<exists>s'. opcode_label env opcode s = Inr (Dispatch s') \<and>
           s' = s\<lparr>sp := base' + (sp s - base), process := Process_CollectGarbage env saved\<rparr> \<and>
           bcp s' = bcp s \<and> sp s' - base' = sp s - base \<and>
           (\<forall>i\<in>{0..sp s - base}.
              mem (process s') (base' + i) = forward (mem (process s) (base + i))) \<and>
           (\<forall>n\<in>{0..sp s - base}. Local s' n = forward (Local s n)) \<and>
           ((\<forall>v. forward v = v) \<longrightarrow> (\<forall>n\<in>{0..sp s - base}. Local s' n = Local s n)) \<and>
           ReadOpcode env s' = ReadOpcode env s \<and>
           ((\<forall>should_break. debug_info env (process s') = Some should_break \<longrightarrow>
                 \<not> should_break (bcp s') (sp s')) \<longrightarrow>
              DISPATCH env s' = and_then (ReadOpcode env s) (\<lambda>opcode. Inr (Label opcode s')))"
proof -
  let ?gc = "Process_CollectGarbage env saved"
  let ?s' = "s\<lparr>sp := base' + (sp s - base), process := ?gc\<rparr>"
  have st: "Process_stack p1 = Inr (r, base, tp)"
    using assms(3,4) by (simp add: stack_kept_def)
  have sts: "Process_stack saved = Inr (r, base, sp s + 1 - base)"
    using Process_stack_set_top [of "p1\<lparr>mem := (mem p1)(sp s + 1 := Raw (bcp s))\<rparr>" r base tp
            "sp s + 1 - base"] st assms(6) by simp
  have tp': "tp' = sp s + 1 - base"
    and moved: "\<forall>i\<in>{0..sp s + 1 - base}. mem ?gc (base' + i) = forward (mem saved (base + i))"
    using assms(7,8) sts by (simp_all add: stack_moved_def)
  have "mem ?gc (base' + (sp s + 1 - base)) = forward (mem saved (base + (sp s + 1 - base)))"
    using moved assms(5) by simp
  then have top: "mem ?gc (base' + tp') = Raw (bcp s)"
    using assms(6,9) tp' by simp
  have "opcode_label env opcode s =
      Inr (Dispatch (s\<lparr>sp := base' + tp' - 1, bcp := bcp s, process := ?gc\<rparr>))"
    by (rule opcode_label_retry [OF assms(1,2) st assms(6,8) top assms(10)])
  moreover have "s\<lparr>sp := base' + tp' - 1, bcp := bcp s, process := ?gc\<rparr> = ?s'"
    using tp' by simp
  ultimately have run: "opcode_label env opcode s = Inr (Dispatch ?s')"
    by simp
  have slots: "\<forall>i\<in>{0..sp s - base}.
      mem (process ?s') (base' + i) = forward (mem (process s) (base + i))"
  proof
    fix i assume i: "i \<in> {0..sp s - base}"
    then have "mem ?gc (base' + i) = forward (mem saved (base + i))"
      using moved by simp
    moreover have "mem saved (base + i) = mem p1 (base + i)"
      using i assms(6) by simp
    moreover have "mem p1 (base + i) = mem (process s) (base + i)"
      using i assms(3) by (simp add: stack_kept_def)
    ultimately show "mem (process ?s') (base' + i) = forward (mem (process s) (base + i))"
      by simp
  qed
  have locals: "\<forall>n\<in>{0..sp s - base}. Local ?s' n = forward (Local s n)"
  proof
    fix n assume "n \<in> {0..sp s - base}"
    then have "sp s - base - n \<in> {0..sp s - base}"
      by simp
    with slots have "mem (process ?s') (base' + (sp s - base - n)) =
        forward (mem (process s) (base + (sp s - base - n)))"
      by blast
    then show "Local ?s' n = forward (Local s n)"
      by (simp add: Local_def algebra_simps)
  qed
  then have same: "(\<forall>v. forward v = v) \<longrightarrow> (\<forall>n\<in>{0..sp s - base}. Local ?s' n = Local s n)"
    by simp
  have rd: "ReadOpcode env ?s' = ReadOpcode env s"
    by (simp add: ReadOpcode_def)
  have disp: "(\<forall>should_break. debug_info env (process ?s') = Some should_break \<longrightarrow>
                 \<not> should_break (bcp ?s') (sp ?s')) \<longrightarrow>
      DISPATCH env ?s' = and_then (ReadOpcode env s) (\<lambda>opcode. Inr (Label opcode ?s'))"
    using rd by (auto simp: DISPATCH_def ShouldBreak_def split: option.splits)
  from run slots locals same rd disp show ?thesis by simp
qed

theorem allocation_failure_retries_witness:
  "\<not> Flags_validate_stack retry_env \<and>
   allocation retry_env kAllocate retry_state = Inr (Failure retry_after_gc, process retry_state) \<and>
   stack_kept (process retry_state) (process retry_state) (sp retry_state) \<and>
   Process_stack (process retry_state) = Inr (51, 0, 0) \<and>
   0 \<le> sp retry_state + 1 \<and>
   stack_moved retry_forward retry_saved (Process_CollectGarbage retry_env retry_saved) \<and>
   Process_stack (Process_CollectGarbage retry_env retry_saved) = Inr (52, 500, 11) \<and>
   retry_forward (Raw (bcp retry_state)) = Raw (bcp retry_state) \<and>
   DEBUG retry_env \<and> bcp retry_state \<noteq> 0 \<and>
   opcode_label retry_env kAllocate retry_state = Inr (Dispatch retry_again) \<and>
   sp retry_again = 510 \<and> bcp retry_again = 1000 \<and>
   Local retry_again 1 = HeapObject 70 \<and> Local retry_again 0 = Smi 2 \<and>
   DISPATCH retry_env retry_again = Inr (Label 50 retry_again) \<and>
   opcode_label retry_env kAllocate retry_again =
     Inr (Dispatch \<lparr>process = (process retry_again)
            \<lparr>mem := (mem (process retry_again))(509 := HeapObject 200),
             heap := (heap (process retry_again))(200 \<mapsto> Instance [HeapObject 70, Smi 2])\<rparr>,
          sp = 509, bcp = 1005, yield_target = None\<rparr>)"
proof -
  have alloc: "allocation retry_env kAllocate retry_state =
      Inr (Failure retry_after_gc, process retry_state)"
    by (simp add: retry_env_def retry_state_def example_env_def example_process_def
          example_heap_def ASSERT_class_id_def Class_id_def ReadInt32_def Utils_ReadInt32_def
          load_def reinterpret_def)
  have kept: "stack_kept (process retry_state) (process retry_state) (sp retry_state)"
    by (simp add: stack_kept_def)
  have st: "Process_stack (process retry_state) = Inr (51, 0, 0)"
    by (simp add: retry_state_def example_process_def example_heap_def Process_stack_def)
  have inside: "0 \<le> sp retry_state + 1"
    by (simp add: retry_state_def)
  have saved: "retry_saved = (process retry_state)
      \<lparr>mem := (mem (process retry_state))(sp retry_state + 1 := Raw (bcp retry_state)),
       heap := (heap (process retry_state))(51 \<mapsto> Stack 0 (sp retry_state + 1 - 0))\<rparr>"
    by (simp add: retry_saved_def retry_state_def example_process_def)
  have gc: "Process_CollectGarbage retry_env retry_saved = retry_collect retry_saved"
    by (simp add: retry_env_def)
  have st_saved: "Process_stack retry_saved = Inr (51, 0, 11)"
    by (simp add: retry_saved_def example_process_def example_heap_def Process_stack_def)
  have st_collected: "Process_stack (retry_collect retry_saved) = Inr (52, 500, 11)"
    by (simp add: retry_collect_def retry_saved_def example_process_def example_heap_def
          Process_stack_def)
  then have st_gc:
    "Process_stack (Process_CollectGarbage retry_env retry_saved) = Inr (52, 500, 11)"
    by (simp only: gc)
  have moved: "stack_moved retry_forward retry_saved
      (Process_CollectGarbage retry_env retry_saved)"
    unfolding gc stack_moved_def st_saved st_collected
    by (simp add: retry_collect_def retry_saved_def example_process_def)
  have fwd: "retry_forward (Raw (bcp retry_state)) = Raw (bcp retry_state)"
    by (simp add: retry_forward_def)
  have off: "\<not> Flags_validate_stack retry_env" and dbg: "DEBUG retry_env"
    and b: "bcp retry_state \<noteq> 0"
    by (simp_all add: retry_env_def example_env_def retry_state_def)
  have none: "debug_info retry_env q = None" for q
    by (simp add: retry_env_def example_env_def)
  have rd: "ReadOpcode retry_env retry_state = Inr 50"
    by (simp add: ReadOpcode_def retry_env_def example_env_def retry_state_def)
  have again_eq: "retry_state\<lparr>sp := 500 + sp retry_state,
      process := Process_CollectGarbage retry_env retry_saved\<rparr> = retry_again"
    unfolding gc by (simp add: retry_again_def retry_state_def)
  from allocation_failure_retries [OF off alloc kept st inside saved moved st_gc fwd] b
  have first: "opcode_label retry_env kAllocate retry_state = Inr (Dispatch retry_again)"
    and again: "DISPATCH retry_env retry_again = Inr (Label 50 retry_again)"
    by (simp_all add: none rd again_eq)
  have slots: "sp retry_again = 510" "bcp retry_again = 1000"
    "Local retry_again 1 = HeapObject 70" "Local retry_again 0 = Smi 2"
    by (simp_all add: retry_again_def retry_collect_def retry_saved_def example_process_def
          retry_forward_def Local_def)
  have second: "opcode_label retry_env kAllocate retry_again =
     Inr (Dispatch \<lparr>process = (process retry_again)
            \<lparr>mem := (mem (process retry_again))(509 := HeapObject 200),
             heap := (heap (process retry_again))(200 \<mapsto> Instance [HeapObject 70, Smi 2])\<rparr>,
          sp = 509, bcp = 1005, yield_target = None\<rparr>)"
    by (simp add: Allocate_def retry_env_def retry_again_def retry_collect_def retry_saved_def
          retry_forward_def example_env_def
          example_process_def example_heap_def ASSERT_class_id_def Class_id_def ReadInt32_def
          Utils_ReadInt32_def load_def reinterpret_def GC_AND_RETRY_ON_ALLOCATION_FAILURE_def
          NumberOfInstanceFields_def SetInstanceField_def Pop_def Push_def Advance_def
          fun_upd_twist)
  from off alloc kept st inside moved st_gc fwd dbg b first slots again second
  show ?thesis by simp
qed

text \<open>
  C3. \<^verbatim>\<open>Return locals args\<close>, run where the slot under the \<open>locals\<close> scratch slots holds
  a return address: the result is read from the top of the stack, \<open>locals\<close> slots are
  dropped, the return address is popped into the bytecode pointer, \<open>args\<close> slots are
  dropped and the result is pushed. The stack pointer changes by
  \<open>- locals - args + 1\<close> and by one more slot for the return address, nothing else
  changes, and execution goes on at the return address. (\<^verbatim>\<open>Flags::validate_stack\<close> is
  off; a debug build asserts that the return address is not null.)
\<close>

theorem Return_frame:
  assumes "\<not> Flags_validate_stack env"
      and "Local s (ReadByte env s 1) = Raw return_address"
      and "\<not> DEBUG env \<or> return_address \<noteq> 0"
  shows "\<exists>s'. Return env s = Inr (Dispatch s') \<and>
           s' = s\<lparr>bcp := return_address,
                  sp := sp s - ReadByte env s 1 - 1 - ReadByte env s 2 + 1,
                  process := (process s)\<lparr>mem := (mem (process s))
                     (sp s - ReadByte env s 1 - 1 - ReadByte env s 2 + 1 := Top s)\<rparr>\<rparr> \<and>
           Top s' = Top s \<and> bcp s' = return_address \<and>
           sp s' - sp s = - ReadByte env s 1 - ReadByte env s 2 + 1 - 1"
  using assms by (auto simp: Return_def state_ops Let_def)

theorem Return_frame_witness:
  "\<not> Flags_validate_stack return_env \<and>
   Local return_state (ReadByte return_env return_state 1) = Raw 2000 \<and>
   DEBUG return_env \<and> (2000::int) \<noteq> 0 \<and>
   Return return_env return_state =
     Inr (Dispatch (return_state\<lparr>bcp := 2000, sp := 7,
            process := (process return_state)\<lparr>mem := (mem (process return_state))(7 := Smi 5)\<rparr>\<rparr>))"
  using Return_frame [of return_env return_state 2000]
  by (simp add: return_env_def return_state_def example_env_def example_process_def
        ReadByte_def Local_def Top_def)

text \<open>
  C4. \<^verbatim>\<open>Throw\<close> saves the state (it pushes the bytecode pointer and sets the stack's
  top) and calls \<^verbatim>\<open>HandleThrow\<close>. When that returns a catch block, in the process \<open>q\<close>
  it unwound to, the engine restores the state from the current stack of \<open>q\<close> (it pops
  the bytecode pointer saved there), drops \<open>stack_delta - 1\<close> more slots, sets the top
  to the exception and goes on at the catch block's bytecode pointer. With a catch
  block in the throwing coroutine's own stack, \<open>q\<close> is the saved process and the pointer
  popped is the one just pushed.
\<close>

theorem Throw_to_catch_block:
  assumes "\<not> Flags_validate_stack env"
      and "Process_stack (process s) = Inr (r, base, tp)"
      and "saved = (process s)\<lparr>mem := (mem (process s))(sp s + 1 := Raw (bcp s)),
                       heap := (heap (process s))(r \<mapsto> Stack base (sp s + 1 - base))\<rparr>"
  shows "(HandleThrow env (Top s) saved = Some (Inr (Catch catch_bcp stack_delta q)) \<and>
          Process_stack q = Inr (r', base', tp') \<and> mem q (base' + tp') = Raw saved_bcp \<and>
          (\<not> DEBUG env \<or> (saved_bcp \<noteq> 0 \<and> catch_bcp \<noteq> 0)) \<longrightarrow>
            Throw env s =
              Some (Inr (Dispatch
                \<lparr>process = q\<lparr>mem := (mem q)(base' + tp' - 1 - (stack_delta - 1) := Top s)\<rparr>,
                 sp = base' + tp' - 1 - (stack_delta - 1),
                 bcp = catch_bcp, yield_target = yield_target s\<rparr>))) \<and>
         (ComputeCatchBlock env saved = (catch_bcp, stack_delta) \<and> catch_bcp \<noteq> 0 \<and>
          (\<not> DEBUG env \<or> bcp s \<noteq> 0) \<longrightarrow>
            Throw env s =
              Some (Inr (Dispatch
                \<lparr>process = saved\<lparr>mem := (mem saved)(sp s - (stack_delta - 1) := Top s)\<rparr>,
                 sp = sp s - (stack_delta - 1),
                 bcp = catch_bcp, yield_target = yield_target s\<rparr>)))"
proof -
  have save: "SaveState s = Inr (s\<lparr>sp := sp s + 1, process := saved\<rparr>)"
    using SaveState_result [OF assms(2)] assms(3) by simp
  have general: "Throw env s =
              Some (Inr (Dispatch
                \<lparr>process = q\<lparr>mem := (mem q)(base' + tp' - 1 - (stack_delta - 1) := Top s)\<rparr>,
                 sp = base' + tp' - 1 - (stack_delta - 1),
                 bcp = catch_bcp, yield_target = yield_target s\<rparr>))"
    if h: "HandleThrow env (Top s) saved = Some (Inr (Catch catch_bcp stack_delta q))"
      and st: "Process_stack q = Inr (r', base', tp')"
      and top: "mem q (base' + tp') = Raw saved_bcp"
      and dbg: "\<not> DEBUG env \<or> (saved_bcp \<noteq> 0 \<and> catch_bcp \<noteq> 0)"
    for q r' base' tp' saved_bcp
  proof -
    have "RestoreState env (s\<lparr>sp := sp s + 1, process := saved\<rparr>\<lparr>process := q\<rparr>) =
        Inr (s\<lparr>sp := sp s + 1, process := saved\<rparr>\<lparr>process := q\<rparr>\<lparr>sp := base' + tp' - 1, bcp := saved_bcp\<rparr>)"
      using RestoreState_result [of "s\<lparr>sp := sp s + 1, process := saved\<rparr>\<lparr>process := q\<rparr>"
          r' base' tp' saved_bcp env] st top dbg by auto
    then show ?thesis
      using assms(1) save h dbg
      by (auto simp: Throw_def Local_def Top_def Goto_def ASSERT_def Drop_def SetTop_def)
  qed
  have st_saved: "Process_stack saved = Inr (r, base, sp s + 1 - base)"
    using Process_stack_set_top [of "(process s)\<lparr>mem := (mem (process s))(sp s + 1 := Raw (bcp s))\<rparr>"
        r base tp "sp s + 1 - base"] assms(2,3) by simp
  have top_saved: "mem saved (base + (sp s + 1 - base)) = Raw (bcp s)"
    using assms(3) by simp
  have direct: "Throw env s =
              Some (Inr (Dispatch
                \<lparr>process = saved\<lparr>mem := (mem saved)(sp s - (stack_delta - 1) := Top s)\<rparr>,
                 sp = sp s - (stack_delta - 1),
                 bcp = catch_bcp, yield_target = yield_target s\<rparr>))"
    if c: "ComputeCatchBlock env saved = (catch_bcp, stack_delta)" and nz: "catch_bcp \<noteq> 0"
      and dbg: "\<not> DEBUG env \<or> bcp s \<noteq> 0"
    using general [OF HandleThrow_caught [OF c nz] st_saved top_saved] dbg nz by simp
  from general direct show ?thesis by blast
qed

theorem Throw_to_catch_block_witness:
  "\<not> Flags_validate_stack throw_env \<and>
   Process_stack (process throw_state) = Inr (51, 0, 0) \<and>
   HandleThrow throw_env (Top throw_state) throw_saved =
     Some (Inr (Catch 6000 2 throw_unwound)) \<and>
   Process_stack throw_unwound = Inr (41, 100, 3) \<and>
   mem throw_unwound (100 + 3) = Raw 4000 \<and>
   Throw throw_env throw_state =
     Some (Inr (Dispatch
       \<lparr>process = throw_unwound\<lparr>mem := (mem throw_unwound)(101 := HeapObject 200)\<rparr>,
        sp = 101, bcp = 6000, yield_target = None\<rparr>)) \<and>
   heap throw_unwound 50 = Some (Coroutine (null_object throw_env) (HeapObject 50)) \<and>
   ComputeCatchBlock catch_env throw_saved = (6000, 3) \<and>
   Throw catch_env throw_state =
     Some (Inr (Dispatch
       \<lparr>process = throw_saved\<lparr>mem := (mem throw_saved)(8 := HeapObject 200)\<rparr>,
        sp = 8, bcp = 6000, yield_target = None\<rparr>))"
proof -
  have off: "\<not> Flags_validate_stack throw_env" "\<not> Flags_validate_stack catch_env"
    by (simp_all add: throw_env_def catch_env_def example_env_def)
  have c0: "fst (ComputeCatchBlock throw_env throw_saved) = 0"
    by (simp add: throw_env_def example_env_def throw_saved_def example_process_def)
  have hc: "has_caller throw_env throw_saved (coroutine throw_saved)"
    by (simp add: throw_env_def example_env_def throw_saved_def example_process_def)
  have cur: "coroutine throw_saved = HeapObject 50"
    and cell: "heap throw_saved 50 = Some (Coroutine (HeapObject 51) (HeapObject 40))"
    by (simp_all add: throw_saved_def example_process_def example_heap_def)
  have unw: "throw_unwound = throw_saved\<lparr>coroutine := HeapObject 40,
      heap := (heap throw_saved)(50 \<mapsto> Coroutine (null_object throw_env) (HeapObject 50))\<rparr>"
    by (simp add: throw_unwound_def throw_env_def example_env_def)
  have c1: "ComputeCatchBlock throw_env throw_unwound = (6000, 2)"
    by (simp add: throw_env_def example_env_def throw_unwound_def)
  have ht: "HandleThrow throw_env (Top throw_state) throw_saved =
      Some (Inr (Catch 6000 2 throw_unwound))"
    using HandleThrow_caller [OF c0 hc cur cell, of "Top throw_state"]
      HandleThrow_caught [OF c1, of "Top throw_state"] unw by simp
  have st: "Process_stack throw_unwound = Inr (41, 100, 3)"
    by (simp add: throw_unwound_def throw_saved_def example_process_def example_heap_def
          Process_stack_def)
  have top: "mem throw_unwound (100 + 3) = Raw 4000"
    by (simp add: throw_unwound_def throw_saved_def example_process_def)
  have exc: "Top throw_state = HeapObject 200" and yt: "yield_target throw_state = None"
    and spv: "sp throw_state = 10" and bv: "bcp throw_state = 1000"
    by (simp_all add: Top_def throw_state_def)
  have dbg: "DEBUG throw_env" "DEBUG catch_env"
    by (simp_all add: throw_env_def catch_env_def example_env_def)
  have cc: "ComputeCatchBlock catch_env throw_saved = (6000, 3)"
    by (simp add: catch_env_def example_env_def)
  have cross: "Throw throw_env throw_state =
     Some (Inr (Dispatch
       \<lparr>process = throw_unwound\<lparr>mem := (mem throw_unwound)(101 := HeapObject 200)\<rparr>,
        sp = 101, bcp = 6000, yield_target = None\<rparr>))"
    using Throw_to_catch_block [OF off(1) throw_state_stack throw_saved_eq,
        where catch_bcp = 6000 and stack_delta = 2 and q = throw_unwound and r' = 41
          and base' = 100 and tp' = 3 and saved_bcp = 4000] ht st top exc yt
    by simp
  have same: "Throw catch_env throw_state =
     Some (Inr (Dispatch
       \<lparr>process = throw_saved\<lparr>mem := (mem throw_saved)(8 := HeapObject 200)\<rparr>,
        sp = 8, bcp = 6000, yield_target = None\<rparr>))"
    using Throw_to_catch_block [OF off(2) throw_state_stack throw_saved_eq,
        where catch_bcp = 6000 and stack_delta = 3 and q = throw_unwound and r' = 41
          and base' = 100 and tp' = 3 and saved_bcp = 4000] cc exc yt spv bv
    by simp
  have nul: "heap throw_unwound 50 = Some (Coroutine (null_object throw_env) (HeapObject 50))"
    by (simp add: unw)
  from off(1) throw_state_stack ht st top cross nul cc same show ?thesis by simp
qed

text \<open>
  C5. \<^verbatim>\<open>HandleThrow\<close> in a process whose current stack has no catch block. A current
  coroutine with a caller: the process switches to the caller, the abandoned
  coroutine's stack becomes null and its caller itself, and the unwinder goes on in the
  caller. No caller: \<^verbatim>\<open>printf\<close> writes the line \<^verbatim>\<open>Uncaught exception:\<close> and the exception
  is printed with its \<^verbatim>\<open>Print()\<close>; then, with a session that is debugging, the session
  is told of the uncaught exception and the engine returns \<^verbatim>\<open>kUncaughtException\<close>, and
  otherwise the process exits with status 1. The exception's \<^verbatim>\<open>Print()\<close> goes to stderr
  as the spec has it (\<open>stream_of\<close>); \<^verbatim>\<open>printf\<close> writes to stdout.
\<close>

theorem HandleThrow_without_catch_block:
  assumes "fst (ComputeCatchBlock env p) = 0"
  shows "(has_caller env p (coroutine p) \<and> coroutine p = HeapObject c \<and>
          heap p c = Some (Coroutine stk caller) \<longrightarrow>
            HandleThrow env exception p =
              HandleThrow env exception
                (p\<lparr>coroutine := caller,
                   heap := (heap p)(c \<mapsto> Coroutine (null_object env) (HeapObject c))\<rparr>)) \<and>
         (\<not> has_caller env p (coroutine p) \<and> session env = Some True \<longrightarrow>
            HandleThrow env exception p =
              Some (Inr (Uncaught (p\<lparr>events := events p @
                [Printf (''Uncaught exception:'' @ [CHR 0x0A]), ObjectPrint exception,
                 Session_UncaughtException]\<rparr>)))) \<and>
         (\<not> has_caller env p (coroutine p) \<and> session env \<noteq> Some True \<longrightarrow>
            HandleThrow env exception p =
              Some (Inr (Exits 1 (p\<lparr>events := events p @
                [Printf (''Uncaught exception:'' @ [CHR 0x0A]), ObjectPrint exception]\<rparr>)))) \<and>
         (\<not> Flags_validate_stack env \<and> SaveState s = Inr after_save \<and> process after_save = p \<and>
          exception = Top s \<and> HandleThrow env exception p = Some (Inr (Uncaught q)) \<longrightarrow>
            Throw env s = Some (Inr (Surrender kUncaughtException (after_save\<lparr>process := q\<rparr>)))) \<and>
         (\<not> Flags_validate_stack env \<and> SaveState s = Inr after_save \<and> process after_save = p \<and>
          exception = Top s \<and> HandleThrow env exception p = Some (Inr (Exits status q)) \<longrightarrow>
            Throw env s = Some (Inr (Exit status q))) \<and>
         stream_of (ObjectPrint exception) = Some Stderr \<and>
         stream_of (Printf (''Uncaught exception:'' @ [CHR 0x0A])) = Some Stdout"
proof -
  have a: "has_caller env p (coroutine p) \<and> coroutine p = HeapObject c \<and>
          heap p c = Some (Coroutine stk caller) \<longrightarrow>
            HandleThrow env exception p =
              HandleThrow env exception
                (p\<lparr>coroutine := caller,
                   heap := (heap p)(c \<mapsto> Coroutine (null_object env) (HeapObject c))\<rparr>)"
    using HandleThrow_caller [OF assms] by blast
  have b: "\<not> has_caller env p (coroutine p) \<and> session env = Some True \<longrightarrow>
            HandleThrow env exception p =
              Some (Inr (Uncaught (p\<lparr>events := events p @
                [Printf (''Uncaught exception:'' @ [CHR 0x0A]), ObjectPrint exception,
                 Session_UncaughtException]\<rparr>)))"
    using HandleThrow_no_caller [OF assms, of exception] by (simp add: Let_def)
  have c: "\<not> has_caller env p (coroutine p) \<and> session env \<noteq> Some True \<longrightarrow>
            HandleThrow env exception p =
              Some (Inr (Exits 1 (p\<lparr>events := events p @
                [Printf (''Uncaught exception:'' @ [CHR 0x0A]), ObjectPrint exception]\<rparr>)))"
    using HandleThrow_no_caller [OF assms, of exception] by (simp add: Let_def)
  have d: "\<not> Flags_validate_stack env \<and> SaveState s = Inr after_save \<and> process after_save = p \<and>
          exception = Top s \<and> HandleThrow env exception p = Some (Inr (Uncaught q)) \<longrightarrow>
            Throw env s = Some (Inr (Surrender kUncaughtException (after_save\<lparr>process := q\<rparr>)))"
    by (auto simp: Throw_def Local_def Top_def)
  have e: "\<not> Flags_validate_stack env \<and> SaveState s = Inr after_save \<and> process after_save = p \<and>
          exception = Top s \<and> HandleThrow env exception p = Some (Inr (Exits status q)) \<longrightarrow>
            Throw env s = Some (Inr (Exit status q))"
    by (auto simp: Throw_def Local_def Top_def)
  from a b c d e show ?thesis by simp
qed

theorem HandleThrow_without_catch_block_witness:
  "fst (ComputeCatchBlock throw_env throw_saved) = 0 \<and>
   has_caller throw_env throw_saved (coroutine throw_saved) \<and>
   coroutine throw_saved = HeapObject 50 \<and>
   heap throw_saved 50 = Some (Coroutine (HeapObject 51) (HeapObject 40)) \<and>
   HandleThrow throw_env (HeapObject 200) throw_saved =
     HandleThrow throw_env (HeapObject 200) throw_unwound \<and>
   coroutine throw_unwound = HeapObject 40 \<and>
   heap throw_unwound 50 = Some (Coroutine (null_object throw_env) (HeapObject 50)) \<and>
   fst (ComputeCatchBlock (uncaught_env (Some True)) throw_saved) = 0 \<and>
   \<not> has_caller (uncaught_env (Some True)) throw_saved (coroutine throw_saved) \<and>
   session (uncaught_env (Some True)) = Some True \<and>
   SaveState throw_state = Inr (throw_state\<lparr>sp := 11, process := throw_saved\<rparr>) \<and>
   Throw (uncaught_env (Some True)) throw_state =
     Some (Inr (Surrender kUncaughtException (throw_state\<lparr>sp := 11, process := throw_saved
       \<lparr>events := [Printf (''Uncaught exception:'' @ [CHR 0x0A]), ObjectPrint (HeapObject 200),
                   Session_UncaughtException]\<rparr>\<rparr>))) \<and>
   session (uncaught_env None) \<noteq> Some True \<and>
   Throw (uncaught_env None) throw_state =
     Some (Inr (Exit 1 (throw_saved
       \<lparr>events := [Printf (''Uncaught exception:'' @ [CHR 0x0A]), ObjectPrint (HeapObject 200)]\<rparr>))) \<and>
   session (uncaught_env (Some False)) \<noteq> Some True \<and>
   Throw (uncaught_env (Some False)) throw_state =
     Some (Inr (Exit 1 (throw_saved
       \<lparr>events := [Printf (''Uncaught exception:'' @ [CHR 0x0A]), ObjectPrint (HeapObject 200)]\<rparr>)))"
proof -
  have c0: "fst (ComputeCatchBlock throw_env throw_saved) = 0"
    by (simp add: throw_env_def example_env_def throw_saved_def example_process_def)
  have hc: "has_caller throw_env throw_saved (coroutine throw_saved)"
    by (simp add: throw_env_def example_env_def throw_saved_def example_process_def)
  have cur: "coroutine throw_saved = HeapObject 50"
    and cell: "heap throw_saved 50 = Some (Coroutine (HeapObject 51) (HeapObject 40))"
    and ev: "events throw_saved = []"
    by (simp_all add: throw_saved_def example_process_def example_heap_def)
  have unw: "throw_unwound = throw_saved\<lparr>coroutine := HeapObject 40,
      heap := (heap throw_saved)(50 \<mapsto> Coroutine (null_object throw_env) (HeapObject 50))\<rparr>"
    by (simp add: throw_unwound_def throw_env_def example_env_def)
  have caller: "HandleThrow throw_env (HeapObject 200) throw_saved =
     HandleThrow throw_env (HeapObject 200) throw_unwound"
    using HandleThrow_without_catch_block [OF c0, of 50 "HeapObject 51" "HeapObject 40"
        "HeapObject 200"] hc cur cell unw by simp
  have u0: "fst (ComputeCatchBlock (uncaught_env d) throw_saved) = 0"
    and nc: "\<not> has_caller (uncaught_env d) throw_saved (coroutine throw_saved)"
    and ses: "session (uncaught_env d) = d"
    and off: "\<not> Flags_validate_stack (uncaught_env d)" for d
    by (simp_all add: uncaught_env_def example_env_def)
  have save: "SaveState throw_state = Inr (throw_state\<lparr>sp := 11, process := throw_saved\<rparr>)"
    using SaveState_result [OF throw_state_stack] throw_saved_eq
    by (simp add: throw_state_def)
  have exc: "Top throw_state = HeapObject 200"
    by (simp add: Top_def throw_state_def)
  note T = HandleThrow_without_catch_block [OF u0,
      where s = throw_state and after_save = "throw_state\<lparr>sp := 11, process := throw_saved\<rparr>"
        and exception = "HeapObject 200"]
  have dbg: "Throw (uncaught_env (Some True)) throw_state =
     Some (Inr (Surrender kUncaughtException (throw_state\<lparr>sp := 11, process := throw_saved
       \<lparr>events := [Printf (''Uncaught exception:'' @ [CHR 0x0A]), ObjectPrint (HeapObject 200),
                   Session_UncaughtException]\<rparr>\<rparr>)))"
    using T [of "Some True"] nc ses off save exc ev by simp
  have nodbg: "Throw (uncaught_env d) throw_state =
     Some (Inr (Exit 1 (throw_saved
       \<lparr>events := [Printf (''Uncaught exception:'' @ [CHR 0x0A]), ObjectPrint (HeapObject 200)]\<rparr>)))"
    if "d \<noteq> Some True" for d
    using T [of d] nc ses off save exc ev that by simp
  have nul: "heap throw_unwound 50 = Some (Coroutine (null_object throw_env) (HeapObject 50))"
    and co: "coroutine throw_unwound = HeapObject 40"
    by (simp_all add: unw)
  from c0 hc cur cell caller co nul u0 [of "Some True"] nc [of "Some True"]
    ses [of "Some True"] ses [of None] ses [of "Some False"] save dbg
    nodbg [of None] nodbg [of "Some False"]
  show ?thesis by simp
qed

text \<open>
  C6. \<^verbatim>\<open>EnterNoSuchMethod\<close> reads the return address on top of the stack, the opcode five
  bytes before it and the 32-bit operand four bytes before it; for a fast invoke the
  selector is the dispatch table's entry at the operand plus one, converted to \<^verbatim>\<open>int\<close>
  (itself, when it is in the range of \<^verbatim>\<open>int\<close>), for the other invokes it is the
  operand; it pushes the selector, the receiver (the slot \<open>arity + 1\<close> under the top) and
  the selector again. \<^verbatim>\<open>ExitNoSuchMethod\<close> pops the result and the selector,
  pops the return address into the bytecode pointer, drops \<open>arity + 1\<close> slots and pushes
  the result, or, for a selector of kind \<^verbatim>\<open>SETTER\<close>, the value that is then on top of
  the stack: the assigned value.
\<close>

theorem NoSuchMethod_trampoline:
  assumes "\<not> Flags_validate_stack env"
  shows "(Local s 0 = Raw return_address \<and>
          IsInvokeFast env (uint (bytecodes env (return_address - 5))) \<and>
          Array_get (dispatch_table env) (Utils_ReadInt32 env (return_address - 4) + 1) = Inr (Smi v) \<and>
          selector = c_convert int32 v
          \<longrightarrow> EnterNoSuchMethod env s =
                Inr (Dispatch (Advance
                  (Push (Push (Push s (Smi selector)) (Local s (ArityField_decode env selector + 1)))
                     (Smi selector))
                  (kEnterNoSuchMethodLength env))) \<and>
              (- (2 ^ 31) \<le> v \<and> v < 2 ^ 31 \<longrightarrow> selector = v)) \<and>
         (Local s 0 = Raw return_address \<and>
          \<not> IsInvokeFast env (uint (bytecodes env (return_address - 5))) \<and>
          (IsInvokeVtable env (uint (bytecodes env (return_address - 5))) \<or>
           IsInvokeNormal env (uint (bytecodes env (return_address - 5))) \<or> \<not> DEBUG env) \<and>
          selector = Utils_ReadInt32 env (return_address - 4)
          \<longrightarrow> EnterNoSuchMethod env s =
                Inr (Dispatch (Advance
                  (Push (Push (Push s (Smi selector)) (Local s (ArityField_decode env selector + 1)))
                     (Smi selector))
                  (kEnterNoSuchMethodLength env)))) \<and>
         (Local s 1 = Smi selector \<and> Local s 2 = Raw return_address \<and>
          (\<not> DEBUG env \<or> return_address \<noteq> 0)
          \<longrightarrow> ExitNoSuchMethod env s =
                Inr (Dispatch
                  (s\<lparr>bcp := return_address,
                     sp := sp s - 3 - (ArityField_decode env selector + 1) + 1,
                     process := (process s)\<lparr>mem := (mem (process s))
                       (sp s - 3 - (ArityField_decode env selector + 1) + 1 :=
                          (if KindField_decode env selector = SETTER env then Local s 3
                           else Top s))\<rparr>\<rparr>)))"
  using assms
  by (auto simp: EnterNoSuchMethod_def ExitNoSuchMethod_def state_ops Let_def Smi_value_def
        c_convert_int32_id algebra_simps)

theorem NoSuchMethod_trampoline_witness:
  "\<not> Flags_validate_stack nsm_env \<and>
   Local (nsm_enter_state 1000) 0 = Raw 1000 \<and>
   IsInvokeFast nsm_env (uint (bytecodes nsm_env (1000 - 5))) \<and>
   Array_get (dispatch_table nsm_env) (Utils_ReadInt32 nsm_env (1000 - 4) + 1) = Inr (Smi 513) \<and>
   EnterNoSuchMethod nsm_env (nsm_enter_state 1000) =
     Inr (Dispatch \<lparr>process = example_process
        \<lparr>mem := (\<lambda>a. Smi 0)(8 := HeapObject 200, 9 := Smi 7, 10 := Raw 1000,
                             11 := Smi 513, 12 := HeapObject 200, 13 := Smi 513)\<rparr>,
      sp = 13, bcp = 3001, yield_target = None\<rparr>) \<and>
   Local (nsm_enter_state 900) 0 = Raw 900 \<and>
   \<not> IsInvokeFast nsm_env (uint (bytecodes nsm_env (900 - 5))) \<and>
   IsInvokeNormal nsm_env (uint (bytecodes nsm_env (900 - 5))) \<and>
   Utils_ReadInt32 nsm_env (900 - 4) = 513 \<and>
   EnterNoSuchMethod nsm_env (nsm_enter_state 900) =
     Inr (Dispatch \<lparr>process = example_process
        \<lparr>mem := (\<lambda>a. Smi 0)(8 := HeapObject 200, 9 := Smi 7, 10 := Raw 900,
                             11 := Smi 513, 12 := HeapObject 200, 13 := Smi 513)\<rparr>,
      sp = 13, bcp = 3001, yield_target = None\<rparr>) \<and>
   Local (nsm_enter_state 800) 0 = Raw 800 \<and>
   IsInvokeFast nsm_env (uint (bytecodes nsm_env (800 - 5))) \<and>
   Array_get (dispatch_table nsm_env) (Utils_ReadInt32 nsm_env (800 - 4) + 1) =
     Inr (Smi 2147484161) \<and>
   c_convert int32 2147484161 = - 2147483135 \<and>
   EnterNoSuchMethod nsm_env (nsm_enter_state 800) =
     Inr (Dispatch \<lparr>process = example_process
        \<lparr>mem := (\<lambda>a. Smi 0)(8 := HeapObject 200, 9 := Smi 7, 10 := Raw 800,
                             11 := Smi (- 2147483135), 12 := HeapObject 200,
                             13 := Smi (- 2147483135))\<rparr>,
      sp = 13, bcp = 3001, yield_target = None\<rparr>) \<and>
   Local (nsm_exit_state 513) 1 = Smi 513 \<and> Local (nsm_exit_state 513) 2 = Raw 1000 \<and>
   KindField_decode nsm_env 513 = SETTER nsm_env \<and>
   ExitNoSuchMethod nsm_env (nsm_exit_state 513) =
     Inr (Dispatch ((nsm_exit_state 513)\<lparr>bcp := 1000, sp := 8,
            process := (process (nsm_exit_state 513))
              \<lparr>mem := (mem (process (nsm_exit_state 513)))(8 := Smi 7)\<rparr>\<rparr>)) \<and>
   KindField_decode nsm_env 1 \<noteq> SETTER nsm_env \<and>
   ExitNoSuchMethod nsm_env (nsm_exit_state 1) =
     Inr (Dispatch ((nsm_exit_state 1)\<lparr>bcp := 1000, sp := 8,
            process := (process (nsm_exit_state 1))
              \<lparr>mem := (mem (process (nsm_exit_state 1)))(8 := Smi 99)\<rparr>\<rparr>))"
  using NoSuchMethod_trampoline [of nsm_env "nsm_enter_state 1000" 1000 513 513]
        NoSuchMethod_trampoline [of nsm_env "nsm_enter_state 900" 900 513 513]
        NoSuchMethod_trampoline [of nsm_env "nsm_enter_state 800" 800 2147484161 "- 2147483135"]
        NoSuchMethod_trampoline [of nsm_env "nsm_exit_state 513" 1000 513 513]
        NoSuchMethod_trampoline [of nsm_env "nsm_exit_state 1" 1000 1 1]
  by (simp add: nsm_env_def nsm_enter_state_def nsm_exit_state_def example_env_def
        example_process_def Local_def Top_def Push_def Advance_def Array_get_def
        Utils_ReadInt32_def load_def reinterpret_def c_convert_def fun_upd_twist)

text \<open>
  C7. \<^verbatim>\<open>InvokeNativeYield\<close>, by what the native returns. A failure other than
  \<open>retry_after_gc\<close>: its \<open>ObjectFromFailure\<close> is pushed and the bytecode pointer
  advances to the next opcode. Null: the return address is popped into the bytecode
  pointer, \<open>arity\<close> slots are dropped and null is pushed. Any other value, a port: the
  same, and then the state is saved (the bytecode pointer is pushed over the null and
  the stack's top set), the port is written to \<^verbatim>\<open>yield_target\<close>, a debug build asserts
  that it is locked, and the engine returns \<^verbatim>\<open>kTargetYield\<close>; null is the top operand of
  the saved stack, under the saved bytecode pointer.
\<close>

theorem InvokeNativeYield_results:
  assumes "\<not> Flags_validate_stack env"
      and "kNativeTable env (ReadByte env s 2) (process s) (LocalPointer s (ReadByte env s 1))
             = (result, p1)"
  shows "(result = Failure f \<and> f \<noteq> retry_after_gc \<longrightarrow>
            InvokeNativeYield env s =
              Inr (Dispatch (Advance (Push (s\<lparr>process := p1\<rparr>) (ObjectFromFailure env f))
                     (kInvokeNativeYieldLength env)))) \<and>
         (\<not> IsFailure result \<and> result = null_object env \<and>
          mem p1 (sp s) = Raw return_address \<and> (\<not> DEBUG env \<or> return_address \<noteq> 0) \<longrightarrow>
            InvokeNativeYield env s =
              Inr (Dispatch (s\<lparr>process := p1\<lparr>mem := (mem p1)
                                  (sp s - 1 - ReadByte env s 1 + 1 := null_object env)\<rparr>,
                               sp := sp s - 1 - ReadByte env s 1 + 1,
                               bcp := return_address\<rparr>))) \<and>
         (\<not> IsFailure result \<and> result \<noteq> null_object env \<and> result = Raw port \<and>
          mem p1 (sp s) = Raw return_address \<and> (\<not> DEBUG env \<or> return_address \<noteq> 0) \<and>
          Process_stack p1 = Inr (r, base, tp) \<and>
          saved = p1\<lparr>mem := (mem p1)(sp s - ReadByte env s 1 := null_object env,
                                     sp s - ReadByte env s 1 + 1 := Raw return_address),
                      heap := (heap p1)(r \<mapsto> Stack base (sp s - ReadByte env s 1 + 1 - base))\<rparr> \<and>
          (\<not> DEBUG env \<or> IsLocked env saved port) \<longrightarrow>
            InvokeNativeYield env s =
              Inr (Surrender kTargetYield
                     \<lparr>process = saved, sp = sp s - ReadByte env s 1 + 1,
                      bcp = return_address, yield_target = Some port\<rparr>)) \<and>
         (result \<noteq> null_object env \<and> result = Raw port \<and>
          mem p1 (sp s) = Raw return_address \<and> return_address \<noteq> 0 \<and>
          Process_stack p1 = Inr (r, base, tp) \<and>
          saved = p1\<lparr>mem := (mem p1)(sp s - ReadByte env s 1 := null_object env,
                                     sp s - ReadByte env s 1 + 1 := Raw return_address),
                      heap := (heap p1)(r \<mapsto> Stack base (sp s - ReadByte env s 1 + 1 - base))\<rparr> \<and>
          DEBUG env \<and> \<not> IsLocked env saved port \<longrightarrow>
            InvokeNativeYield env s = Inl AssertionFailed)"
proof -
  have a: "result = Failure f \<Longrightarrow> f \<noteq> retry_after_gc \<Longrightarrow>
            InvokeNativeYield env s =
              Inr (Dispatch (Advance (Push (s\<lparr>process := p1\<rparr>) (ObjectFromFailure env f))
                     (kInvokeNativeYieldLength env)))"
    using assms
    by (simp add: InvokeNativeYield_def GC_AND_RETRY_ON_ALLOCATION_FAILURE_def Let_def)
  have b: "\<not> IsFailure result \<Longrightarrow> result = null_object env \<Longrightarrow>
          mem p1 (sp s) = Raw return_address \<Longrightarrow> (\<not> DEBUG env \<or> return_address \<noteq> 0) \<Longrightarrow>
            InvokeNativeYield env s =
              Inr (Dispatch (s\<lparr>process := p1\<lparr>mem := (mem p1)
                                  (sp s - 1 - ReadByte env s 1 + 1 := null_object env)\<rparr>,
                               sp := sp s - 1 - ReadByte env s 1 + 1,
                               bcp := return_address\<rparr>))"
    using assms
    by (auto simp: InvokeNativeYield_def GC_AND_RETRY_ON_ALLOCATION_FAILURE_def Let_def
          IsFailure_def state_ops split: object.splits)
  have c: "\<not> IsFailure result \<Longrightarrow> result \<noteq> null_object env \<Longrightarrow> result = Raw port \<Longrightarrow>
          mem p1 (sp s) = Raw return_address \<Longrightarrow> (\<not> DEBUG env \<or> return_address \<noteq> 0) \<Longrightarrow>
          Process_stack p1 = Inr (r, base, tp) \<Longrightarrow>
          saved = p1\<lparr>mem := (mem p1)(sp s - ReadByte env s 1 := null_object env,
                                     sp s - ReadByte env s 1 + 1 := Raw return_address),
                      heap := (heap p1)(r \<mapsto> Stack base (sp s - ReadByte env s 1 + 1 - base))\<rparr> \<Longrightarrow>
          (\<not> DEBUG env \<or> IsLocked env saved port) \<Longrightarrow>
            InvokeNativeYield env s =
              Inr (Surrender kTargetYield
                     \<lparr>process = saved, sp = sp s - ReadByte env s 1 + 1,
                      bcp = return_address, yield_target = Some port\<rparr>)"
    using assms
    by (auto simp: InvokeNativeYield_def GC_AND_RETRY_ON_ALLOCATION_FAILURE_def Let_def
          IsFailure_def state_ops SaveState_def SetTopFromPointer_def algebra_simps)
  have d: "result \<noteq> null_object env \<Longrightarrow> result = Raw port \<Longrightarrow>
          mem p1 (sp s) = Raw return_address \<Longrightarrow> return_address \<noteq> 0 \<Longrightarrow>
          Process_stack p1 = Inr (r, base, tp) \<Longrightarrow>
          saved = p1\<lparr>mem := (mem p1)(sp s - ReadByte env s 1 := null_object env,
                                     sp s - ReadByte env s 1 + 1 := Raw return_address),
                      heap := (heap p1)(r \<mapsto> Stack base (sp s - ReadByte env s 1 + 1 - base))\<rparr> \<Longrightarrow>
          DEBUG env \<Longrightarrow> \<not> IsLocked env saved port \<Longrightarrow>
            InvokeNativeYield env s = Inl AssertionFailed"
    using assms
    by (auto simp: InvokeNativeYield_def GC_AND_RETRY_ON_ALLOCATION_FAILURE_def Let_def
          state_ops SaveState_def SetTopFromPointer_def algebra_simps)
  from a b c d show ?thesis by blast
qed

theorem InvokeNativeYield_results_witness:
  "\<not> Flags_validate_stack yield_env \<and>
   kNativeTable yield_env (ReadByte yield_env (yield_state 1000) 2) (process (yield_state 1000))
      (LocalPointer (yield_state 1000) (ReadByte yield_env (yield_state 1000) 1))
     = (Raw 7777, process (yield_state 1000)) \<and>
   \<not> IsFailure (Raw 7777) \<and> Raw 7777 \<noteq> null_object yield_env \<and>
   mem (process (yield_state 1000)) (sp (yield_state 1000)) = Raw 2000 \<and>
   Process_stack (process (yield_state 1000)) = Inr (51, 0, 0) \<and>
   IsLocked yield_env yield_saved 7777 \<and>
   InvokeNativeYield yield_env (yield_state 1000) =
     Inr (Surrender kTargetYield
            \<lparr>process = yield_saved, sp = 9, bcp = 2000, yield_target = Some 7777\<rparr>) \<and>
   mem yield_saved (9 - 1) = null_object yield_env \<and>
   kNativeTable yield_env (ReadByte yield_env (yield_state 1100) 2) (process (yield_state 1100))
      (LocalPointer (yield_state 1100) (ReadByte yield_env (yield_state 1100) 1))
     = (null_object yield_env, process (yield_state 1100)) \<and>
   \<not> IsFailure (null_object yield_env) \<and>
   InvokeNativeYield yield_env (yield_state 1100) =
     Inr (Dispatch ((yield_state 1100)
            \<lparr>process := (process (yield_state 1100))
               \<lparr>mem := (mem (process (yield_state 1100)))(8 := HeapObject 0)\<rparr>,
             sp := 8, bcp := 2000\<rparr>)) \<and>
   kNativeTable yield_env (ReadByte yield_env (yield_state 1200) 2) (process (yield_state 1200))
      (LocalPointer (yield_state 1200) (ReadByte yield_env (yield_state 1200) 1))
     = (Failure index_out_of_bounds, process (yield_state 1200)) \<and>
   index_out_of_bounds \<noteq> retry_after_gc \<and>
   InvokeNativeYield yield_env (yield_state 1200) =
     Inr (Dispatch ((yield_state 1200)
            \<lparr>process := (process (yield_state 1200))
               \<lparr>mem := (mem (process (yield_state 1200)))(11 := HeapObject 3)\<rparr>,
             sp := 11, bcp := 1203\<rparr>))"
  using InvokeNativeYield_results [of yield_env "yield_state 1000" "Raw 7777"
          "process (yield_state 1000)" index_out_of_bounds 2000 7777 51 0 0 yield_saved]
        InvokeNativeYield_results [of yield_env "yield_state 1100" "HeapObject 0"
          "process (yield_state 1100)" index_out_of_bounds 2000 7777 51 0 0 yield_saved]
        InvokeNativeYield_results [of yield_env "yield_state 1200" "Failure index_out_of_bounds"
          "process (yield_state 1200)" index_out_of_bounds 2000 7777 51 0 0 yield_saved]
  by (simp add: yield_env_def yield_state_def yield_saved_def example_env_def
        example_process_def example_heap_def Process_stack_def IsFailure_def
        ReadByte_def LocalPointer_def Push_def Advance_def fun_upd_twist)

text \<open>
  C8. \<^verbatim>\<open>HandleIdentical\<close> on two doubles is true when both are NaN or the two are
  equal as doubles, so for two NaNs and for the two zeros; on two large integers it
  compares the 64-bit values; on any other pair it is pointer equality. The opcode
  \<^verbatim>\<open>Identical\<close> replaces its two operands by that result; \<^verbatim>\<open>IdenticalNonNumeric\<close>
  replaces them by their pointer equality, which is false for two distinct objects,
  NaNs or not.
\<close>

theorem Identical_semantics:
  assumes "\<not> Flags_validate_stack env"
  shows "(as_Double p l = Some a \<and> as_Double p r = Some b \<longrightarrow>
            HandleIdentical env p l r = ToBool env ((isnan a \<and> isnan b) \<or> double_equal a b)) \<and>
         (as_LargeInteger p l = Some x \<and> as_LargeInteger p r = Some y \<longrightarrow>
            HandleIdentical env p l r = ToBool env (x = y)) \<and>
         ((as_Double p l = None \<or> as_Double p r = None) \<and>
          (as_LargeInteger p l = None \<or> as_LargeInteger p r = None) \<longrightarrow>
            HandleIdentical env p l r = ToBool env (l = r)) \<and>
         (as_Double p l = Some a \<and> as_Double p r = Some b \<and> isnan a \<and> isnan b \<longrightarrow>
            HandleIdentical env p l r = true_object env) \<and>
         (as_Double p l = Some 0 \<and> as_Double p r = Some 0x8000000000000000 \<longrightarrow>
            HandleIdentical env p l r = true_object env) \<and>
         Identical env s =
           Inr (Dispatch (Advance
             (SetTop (Drop s 1) (HandleIdentical env (process s) (Local s 1) (Local s 0)))
             (kIdenticalLength env))) \<and>
         IdenticalNonNumeric env s =
           Inr (Dispatch (Advance (SetTop (Drop s 1) (ToBool env (Local s 0 = Local s 1)))
             (kIdenticalNonNumericLength env))) \<and>
         (Local s 0 \<noteq> Local s 1 \<longrightarrow>
            IdenticalNonNumeric env s =
              Inr (Dispatch (Advance (SetTop (Drop s 1) (false_object env))
                (kIdenticalNonNumericLength env))))"
proof -
  have dbl: "as_Double p l = Some a \<Longrightarrow> as_Double p r = Some b \<Longrightarrow>
      HandleIdentical env p l r = ToBool env ((isnan a \<and> isnan b) \<or> double_equal a b)" for a b
    by (simp add: HandleIdentical_def ToBool_def)
  have excl: "as_LargeInteger p o1 = Some v \<Longrightarrow> as_Double p o1 = None" for o1 v
    by (auto simp: as_LargeInteger_def as_Double_def split: object.splits option.splits heap_object.splits)
  have large: "as_LargeInteger p l = Some x \<Longrightarrow> as_LargeInteger p r = Some y \<Longrightarrow>
      HandleIdentical env p l r = ToBool env (x = y)"
    by (simp add: HandleIdentical_def ToBool_def excl)
  have other: "(as_Double p l = None \<or> as_Double p r = None) \<Longrightarrow>
      (as_LargeInteger p l = None \<or> as_LargeInteger p r = None) \<Longrightarrow>
      HandleIdentical env p l r = ToBool env (l = r)"
    by (auto simp: HandleIdentical_def ToBool_def split: option.splits)
  have nan: "as_Double p l = Some a \<Longrightarrow> as_Double p r = Some b \<Longrightarrow> isnan a \<Longrightarrow> isnan b \<Longrightarrow>
      HandleIdentical env p l r = true_object env"
    by (simp add: HandleIdentical_def)
  have zeros: "as_Double p l = Some 0 \<Longrightarrow> as_Double p r = Some 0x8000000000000000 \<Longrightarrow>
      HandleIdentical env p l r = true_object env"
    by (simp add: HandleIdentical_def isnan_def double_equal_def)
  have op1: "Identical env s =
           Inr (Dispatch (Advance
             (SetTop (Drop s 1) (HandleIdentical env (process s) (Local s 1) (Local s 0)))
             (kIdenticalLength env)))"
    using assms by (simp add: Identical_def)
  have op2: "IdenticalNonNumeric env s =
           Inr (Dispatch (Advance (SetTop (Drop s 1) (ToBool env (Local s 0 = Local s 1)))
             (kIdenticalNonNumericLength env)))"
    using assms by (simp add: IdenticalNonNumeric_def)
  have op3: "Local s 0 \<noteq> Local s 1 \<Longrightarrow>
            IdenticalNonNumeric env s =
              Inr (Dispatch (Advance (SetTop (Drop s 1) (false_object env))
                (kIdenticalNonNumericLength env)))"
    using assms by (simp add: IdenticalNonNumeric_def ToBool_def)
  from dbl large other nan zeros op1 op2 op3 show ?thesis by blast
qed

theorem Identical_semantics_witness:
  "\<not> Flags_validate_stack example_env \<and>
   as_Double example_process (HeapObject 5) = Some 0x7FF8000000000000 \<and>
   as_Double example_process (HeapObject 6) = Some 0x7FF8000000000000 \<and>
   isnan 0x7FF8000000000000 \<and>
   HandleIdentical example_env example_process (HeapObject 5) (HeapObject 6) = true_object example_env \<and>
   as_Double example_process (HeapObject 7) = Some 0 \<and>
   as_Double example_process (HeapObject 8) = Some 0x8000000000000000 \<and>
   HandleIdentical example_env example_process (HeapObject 7) (HeapObject 8) = true_object example_env \<and>
   as_LargeInteger example_process (HeapObject 9) = Some 0x10000000000 \<and>
   as_LargeInteger example_process (HeapObject 10) = Some 0x10000000000 \<and>
   HandleIdentical example_env example_process (HeapObject 9) (HeapObject 10) = true_object example_env \<and>
   as_Double example_process (Smi 3) = None \<and> as_LargeInteger example_process (Smi 3) = None \<and>
   HandleIdentical example_env example_process (Smi 3) (HeapObject 9) = false_object example_env \<and>
   HandleIdentical example_env example_process (HeapObject 9) (HeapObject 9) = true_object example_env \<and>
   Identical example_env identical_state =
     Inr (Dispatch (identical_state
       \<lparr>sp := 9, bcp := 1001,
        process := (process identical_state)
          \<lparr>mem := (mem (process identical_state))(9 := true_object example_env)\<rparr>\<rparr>)) \<and>
   Local identical_state 0 \<noteq> Local identical_state 1 \<and>
   IdenticalNonNumeric example_env identical_state =
     Inr (Dispatch (identical_state
       \<lparr>sp := 9, bcp := 1001,
        process := (process identical_state)
          \<lparr>mem := (mem (process identical_state))(9 := false_object example_env)\<rparr>\<rparr>))"
  using Identical_semantics [of example_env example_process "HeapObject 5" "0x7FF8000000000000"
          "HeapObject 6" "0x7FF8000000000000" 0 0 identical_state]
        Identical_semantics [of example_env example_process "HeapObject 7" 0
          "HeapObject 8" "0x8000000000000000" 0 0 identical_state]
        Identical_semantics [of example_env example_process "HeapObject 9" 0
          "HeapObject 10" 0 "0x10000000000" "0x10000000000" identical_state]
        Identical_semantics [of example_env example_process "Smi 3" 0
          "HeapObject 9" 0 0 0 identical_state]
        Identical_semantics [of example_env example_process "HeapObject 9" 0
          "HeapObject 9" 0 "0x10000000000" "0x10000000000" identical_state]
  by (simp add: example_env_def example_process_def example_heap_def identical_state_def
        as_Double_def as_LargeInteger_def isnan_def double_equal_def ToBool_def
        HandleIdentical_def Local_def SetTop_def Drop_def Advance_def)



text \<open>
  C10. Each of \<^verbatim>\<open>ForeignCall0\<close> to \<^verbatim>\<open>ForeignCall6\<close> hands the callee its argument
  words as \<^verbatim>\<open>AsForeignWord\<close> gives them, and returns \<^verbatim>\<open>ToInteger\<close> of the callee's
  result read as a C \<^verbatim>\<open>int\<close>: a value from \<open>- 2 ^ 31\<close> up to \<open>2 ^ 31 - 1\<close> that
  agrees with the callee's machine word modulo \<open>2 ^ 32\<close>.
\<close>

theorem ForeignCall_returns_int:
  assumes "n < 7"
      and "AsForeignWord p (mem p arguments) = Inr address"
      and "foreign_words p arguments n = Inr ws"
      and "foreign_function env address ws p = (r, p')"
  shows "(ForeignCall_natives ! n) env p arguments = Inr (ToInteger env p' (c_convert int32 r)) \<and>
         - (2 ^ 31) \<le> c_convert int32 r \<and> c_convert int32 r < 2 ^ 31 \<and>
         c_convert int32 r mod 2 ^ 32 = r mod 2 ^ 32 \<and>
         length ws = n \<and>
         (\<forall>i<n. AsForeignWord p (mem p (arguments + 1 + int i)) = Inr (ws ! i))"
  using assms foreign_words_nth [OF assms(3)] c_convert_int32_range [of r]
  by (simp add: ForeignCall_natives_nth ForeignCall_def)

theorem ForeignCall_returns_int_witness:
  "(2::nat) < 7 \<and>
   AsForeignWord ffi_process (mem ffi_process 30) = Inr 9000 \<and>
   foreign_words ffi_process 30 2 = Inr [0x10000000000, 5] \<and>
   foreign_function ffi_env 9000 [0x10000000000, 5] ffi_process = (0x10000000005, ffi_process) \<and>
   Native_ForeignCall2 ffi_env ffi_process 30 = Inr (Smi 5, ffi_process) \<and>
   c_convert int32 0x10000000005 = 5"
  using ForeignCall_returns_int [of 2 ffi_process 30 9000 "[0x10000000000, 5]" ffi_env
          "0x10000000005" ffi_process]
  by (simp add: ffi_process_def ffi_env_def example_env_def example_process_def
        AsForeignWord_def c_convert_def reinterpret_def
        ForeignCall_natives_def numeral_2_eq_2)

end
